theory Spec2Isabelle
  imports Main
begin

section \<open>UDP to MQTT gateway: a shallow embedding of src/main.cpp\<close>

text \<open>
  The gateway reads a configuration file, opens an IPv4 UDP socket, connects to an MQTT
  broker and then forwards every received datagram as one MQTT message. The embedding
  follows \<^verbatim>\<open>main.cpp\<close> function by function. Everything the program does to the outside
  world (writing to a stream, calling the socket API or the MQTT client library) is an
  \<open>event\<close> of a trace; everything the outside world answers (file contents, return codes,
  datagrams) is a parameter. A C++ \<^verbatim>\<open>int\<close> is an \<open>int\<close>; the only place where its width matters
  is \<^verbatim>\<open>std::stoi\<close>, whose range check is written out. A \<^verbatim>\<open>std::string\<close> and a \<^verbatim>\<open>char\<close>
  buffer are lists of 8-bit \<open>char\<close>s.
\<close>

subsection \<open>Static configuration and default values\<close>

definition UDP_BUFFER_SIZE :: nat where "UDP_BUFFER_SIZE = 2048"

definition CONF_FILE :: string where "CONF_FILE = ''/etc/udpmqttgw.conf''"
definition MQTT_QOS :: int where "MQTT_QOS = 0"
definition MQTT_KEEP_ALIVE :: int where "MQTT_KEEP_ALIVE = 20"
definition MQTT_RETRY :: int where "MQTT_RETRY = 1000"
definition MQTT_CONN_TIMEOUT :: int where "MQTT_CONN_TIMEOUT = 1000"

text \<open>
  The constants of the Eclipse Paho C client (\<^verbatim>\<open>MQTTClient.h\<close>, an external library that is
  not part of the repository), with the values of that header. No theorem below depends
  on the values, only on which constant the program selects.
\<close>

definition MQTTCLIENT_SUCCESS :: int where "MQTTCLIENT_SUCCESS = 0"
definition MQTTVERSION_DEFAULT :: int where "MQTTVERSION_DEFAULT = 0"
definition MQTTVERSION_3_1 :: int where "MQTTVERSION_3_1 = 3"
definition MQTTVERSION_3_1_1 :: int where "MQTTVERSION_3_1_1 = 4"
definition MQTTVERSION_5 :: int where "MQTTVERSION_5 = 5"
definition MQTT_SSL_VERSION_DEFAULT :: int where "MQTT_SSL_VERSION_DEFAULT = 0"
definition MQTT_SSL_VERSION_TLS_1_0 :: int where "MQTT_SSL_VERSION_TLS_1_0 = 1"
definition MQTT_SSL_VERSION_TLS_1_1 :: int where "MQTT_SSL_VERSION_TLS_1_1 = 2"
definition MQTT_SSL_VERSION_TLS_1_2 :: int where "MQTT_SSL_VERSION_TLS_1_2 = 3"

definition MQTT_VERSION :: int where "MQTT_VERSION = MQTTVERSION_DEFAULT"
definition MQTT_VERSION_STR :: string where "MQTT_VERSION_STR = ''Default''"
definition MQTT_SSL :: int where "MQTT_SSL = MQTT_SSL_VERSION_TLS_1_2"
definition MQTT_SSL_STR :: string where "MQTT_SSL_STR = ''1.2''"

definition EXIT_SUCCESS :: int where "EXIT_SUCCESS = 0"
definition EXIT_FAILURE :: int where "EXIT_FAILURE = 1"

definition INT_MIN :: int where "INT_MIN = - 2147483648"
definition INT_MAX :: int where "INT_MAX = 2147483647"

subsection \<open>The standard string operations the program uses\<close>

text \<open>
  A position result of \<^verbatim>\<open>find\<close> is \<open>Some i\<close>, and \<^verbatim>\<open>std::string::npos\<close> is \<open>None\<close>; the same
  for a count argument of \<^verbatim>\<open>substr\<close>.
\<close>

definition nl :: string where "nl = [CHR 0x0A]"

fun find_chr :: "string \<Rightarrow> char \<Rightarrow> nat option" where
  "find_chr [] c = None"
| "find_chr (x # xs) c = (if x = c then Some 0 else map_option Suc (find_chr xs c))"

fun find_str :: "string \<Rightarrow> string \<Rightarrow> nat option" where
  "find_str [] p = (if p = [] then Some 0 else None)"
| "find_str (x # xs) p =
     (if take (length p) (x # xs) = p then Some 0 else map_option Suc (find_str xs p))"

fun find_first_not_of :: "string \<Rightarrow> string \<Rightarrow> nat option" where
  "find_first_not_of [] ws = None"
| "find_first_not_of (x # xs) ws =
     (if \<not> List.member ws x then Some 0 else map_option Suc (find_first_not_of xs ws))"

definition find_last_not_of :: "string \<Rightarrow> string \<Rightarrow> nat option" where
  "find_last_not_of str ws =
     map_option (\<lambda>i. length str - 1 - i) (find_first_not_of (rev str) ws)"

text \<open>
  \<^verbatim>\<open>str.substr(pos, count)\<close>. The library throws \<^verbatim>\<open>std::out_of_range\<close> when \<open>pos\<close> exceeds
  the size; every call of the program passes a position that \<^verbatim>\<open>find\<close> returned on the same
  string (plus one), so that branch is never taken and \<open>drop\<close> stands for it.
\<close>

definition substr :: "string \<Rightarrow> nat \<Rightarrow> nat option \<Rightarrow> string" where
  "substr str pos count =
     (case count of None \<Rightarrow> drop pos str | Some n \<Rightarrow> take n (drop pos str))"

text \<open>\<^verbatim>\<open>c_str()\<close>: what a C API reads from the string, up to the first NUL byte.\<close>

definition c_str :: "string \<Rightarrow> string" where
  "c_str s = takeWhile (\<lambda>c. c \<noteq> CHR 0x00) s"

text \<open>\<^verbatim>\<open>operator<<\<close> on an \<^verbatim>\<open>int\<close>: the decimal numeral.\<close>

fun show_nat :: "nat \<Rightarrow> string" where
  "show_nat n =
     (if n < 10 then [''0123456789'' ! n]
      else show_nat (n div 10) @ [''0123456789'' ! (n mod 10)])"

declare show_nat.simps [simp del]

definition show_int :: "int \<Rightarrow> string" where
  "show_int i = (if i < 0 then CHR ''-'' # show_nat (nat (- i)) else show_nat (nat i))"

subsection \<open>Exceptions and std::stoi\<close>

datatype exn =
    Runtime_error string
  | Invalid_argument
  | Out_of_range

definition isspace :: "char \<Rightarrow> bool" where
  "isspace c = List.member [CHR '' '', CHR 0x09, CHR 0x0A, CHR 0x0B, CHR 0x0C, CHR 0x0D] c"

definition isdigit :: "char \<Rightarrow> bool" where
  "isdigit c = List.member ''0123456789'' c"

definition digit_val :: "char \<Rightarrow> int" where
  "digit_val c = of_char c - 48"

definition digits_val :: "string \<Rightarrow> int" where
  "digits_val ds = foldl (\<lambda>acc c. 10 * acc + digit_val c) 0 ds"

text \<open>
  \<^verbatim>\<open>std::stoi(val)\<close> in base 10: leading white space is skipped, one sign is accepted, then
  the longest run of digits is converted and whatever follows is ignored. No digit at all
  throws \<^verbatim>\<open>std::invalid_argument\<close>; a value that does not fit a 32-bit \<^verbatim>\<open>int\<close> throws
  \<^verbatim>\<open>std::out_of_range\<close>.
\<close>

definition stoi :: "string \<Rightarrow> exn + int" where
  "stoi str =
     (let s1 = dropWhile isspace str;
          neg = (s1 \<noteq> [] \<and> hd s1 = CHR ''-'');
          s2 = (if s1 \<noteq> [] \<and> (hd s1 = CHR ''-'' \<or> hd s1 = CHR ''+'') then tl s1 else s1);
          ds = takeWhile isdigit s2
      in if ds = [] then Inl Invalid_argument
         else (let n = (if neg then - digits_val ds else digits_val ds)
               in if n < INT_MIN \<or> INT_MAX < n then Inl Out_of_range else Inr n))"

subsection \<open>The trace of a run\<close>

record MQTTClient_SSLOptions =
  enableServerCertAuth :: int
  sslVersion :: int
  verify :: int
  trustStore :: "string option"
  keyStore :: "string option"
  privateKey :: "string option"
  privateKeyPassword :: "string option"

record MQTTClient_connectOptions =
  keepAliveInterval :: int
  cleansession :: int
  connectTimeout :: int
  retryInterval :: int
  username :: "string option"
  password :: "string option"
  MQTTVersion :: int
  ssl :: "MQTTClient_SSLOptions option"

text \<open>
  A message handed to the library: \<open>payload\<close> is what the pointer refers to (the whole
  receive buffer) and \<open>payloadlen\<close> the length the library is told to read from it.
\<close>

record MQTTClient_message =
  payload :: string
  payloadlen :: int
  qos :: int
  retained :: int

datatype event =
    Stdout string
  | Stderr string
  | Call_socket int
  | Call_bind int int
  | Call_MQTTClient_create string string
  | Call_MQTTClient_connect MQTTClient_connectOptions int
  | Call_recvfrom int
  | Call_MQTTClient_publishMessage string MQTTClient_message
  | Call_MQTTClient_waitForCompletion int int int

text \<open>
  \<open>Call_socket r\<close>, \<open>Call_bind port r\<close>, \<open>Call_MQTTClient_connect opts r\<close>,
  \<open>Call_recvfrom r\<close> and \<open>Call_MQTTClient_waitForCompletion token timeout r\<close> carry the
  value \<open>r\<close> the call returned. How a run ends: \<^verbatim>\<open>exit(code)\<close>, an exception nobody
  catches, or still inside the forward loop, blocked in \<^verbatim>\<open>recvfrom\<close>.
\<close>

datatype outcome =
    Exit int
  | Uncaught exn
  | Blocked_in_recvfrom

subsection \<open>AppOptions\<close>

record AppOptions =
  verbosity :: int
  confPath :: string
  inputUdpPort :: int
  mqttUrl :: string
  mqttTopic :: string
  mqttClientID :: string
  mqttUsername :: string
  mqttPassword :: string
  mqttVersion :: int
  mqttVersion_str :: string
  mqttQosLevel :: int
  mqttKeepAliveInterval :: int
  mqttRetryInterval :: int
  mqttConnectionTimeout :: int
  mqttSslEnableServerCertAuth :: int
  mqttSslVersion :: int
  mqttSslVersion_str :: string
  mqttSslVerify :: int
  mqttSslTrustStore :: string
  mqttSslKeyStore :: string
  mqttSslPrivateKey :: string
  mqttSslPrivateKeyPasswd :: string
  applicationName :: string

text \<open>The default member initialisers, with \<open>verbosity{0}\<close> and \<open>applicationName{argv[0]}\<close>.\<close>

definition AppOptions_defaults :: "string \<Rightarrow> AppOptions" where
  "AppOptions_defaults argv0 =
     \<lparr> verbosity = 0, confPath = CONF_FILE, inputUdpPort = 0,
       mqttUrl = [], mqttTopic = [], mqttClientID = [], mqttUsername = [], mqttPassword = [],
       mqttVersion = MQTT_VERSION, mqttVersion_str = MQTT_VERSION_STR,
       mqttQosLevel = MQTT_QOS, mqttKeepAliveInterval = MQTT_KEEP_ALIVE,
       mqttRetryInterval = MQTT_RETRY, mqttConnectionTimeout = MQTT_CONN_TIMEOUT,
       mqttSslEnableServerCertAuth = 1, mqttSslVersion = MQTT_SSL,
       mqttSslVersion_str = MQTT_SSL_STR, mqttSslVerify = 0,
       mqttSslTrustStore = [], mqttSslKeyStore = [], mqttSslPrivateKey = [],
       mqttSslPrivateKeyPasswd = [], applicationName = argv0 \<rparr>"

definition printUsageShort :: "AppOptions \<Rightarrow> event list" where
  "printUsageShort this =
     [Stdout (''usage: '' @ applicationName this @ '' ''),
      Stdout ''[-h] '',
      Stdout ''[-v] '',
      Stdout (''[-c=FILE]'' @ nl)]"

definition printUsage :: "AppOptions \<Rightarrow> event list" where
  "printUsage this =
     printUsageShort this @
     [Stdout nl,
      Stdout (''optional arguments:'' @ nl),
      Stdout (''  -h,          show this help message and exit'' @ nl),
      Stdout (''  -v,          increase output verbosity'' @ nl),
      Stdout (''  -c=FILE,     path to config file (default: '' @ CONF_FILE @ nl)]"

text \<open>
  The constructor's loop over \<^verbatim>\<open>cliArgs\<close>: \<open>Inl code\<close> is \<^verbatim>\<open>exit(code)\<close> from within the loop.
  \<^verbatim>\<open>0 == arg.find("-h")\<close> holds when the argument starts with \<^verbatim>\<open>-h\<close>. In
  \<^verbatim>\<open>arg.substr(arg.find('=') + 1)\<close> a result \<^verbatim>\<open>npos\<close> plus one wraps around to \<open>0\<close>.
\<close>

fun parseCliArgs :: "AppOptions \<Rightarrow> string list \<Rightarrow> event list \<times> (int + AppOptions)" where
  "parseCliArgs this [] = ([], Inr this)"
| "parseCliArgs this (arg # cliArgs) =
     (if find_str arg ''-h'' = Some 0 then (printUsage this, Inl EXIT_SUCCESS)
      else if find_str arg ''-v'' = Some 0 then
        parseCliArgs (this\<lparr>verbosity := 1\<rparr>) cliArgs
      else if find_str arg ''-c='' = Some 0 then
        parseCliArgs
          (this\<lparr>confPath :=
             (case find_chr arg CHR ''='' of
                None \<Rightarrow> substr arg 0 None
              | Some eq \<Rightarrow> substr arg (eq + 1) None)\<rparr>) cliArgs
      else
        (printUsageShort this @
         [Stderr (''error: unrecognized arguments: '' @ arg @ nl)], Inl EXIT_FAILURE))"

definition AppOptions_ctor :: "string \<Rightarrow> string list \<Rightarrow> event list \<times> (int + AppOptions)" where
  "AppOptions_ctor argv0 args = parseCliArgs (AppOptions_defaults argv0) args"

definition trim :: "string \<Rightarrow> string \<Rightarrow> string" where
  "trim str whitespace =
     (case find_first_not_of str whitespace of
        None \<Rightarrow> []
      | Some strBegin \<Rightarrow>
          (case find_last_not_of str whitespace of
             None \<Rightarrow> substr str strBegin None
           | Some strEnd \<Rightarrow> substr str strBegin (Some (strEnd - strBegin + 1))))"

definition trimComment :: "string \<Rightarrow> string" where
  "trimComment str = substr str 0 (find_chr str CHR ''#'')"

subsection \<open>AppOptions::parseConfFile\<close>

text \<open>
  The lines \<^verbatim>\<open>std::getline\<close> delivers from the file contents: a line ends at a newline or at
  the end of the file, and the read after the last line fails, which ends the loop.
\<close>

fun getlines :: "string \<Rightarrow> string \<Rightarrow> string list" where
  "getlines cur [] = (if cur = [] then [] else [cur])"
| "getlines cur (c # cs) =
     (if c = CHR 0x0A then cur # getlines [] cs else getlines (cur @ [c]) cs)"

text \<open>An assignment \<^verbatim>\<open>field = std::stoi(val)\<close>: the exception of \<open>stoi\<close> leaves the function.\<close>

definition assign_stoi :: "string \<Rightarrow> (int \<Rightarrow> AppOptions) \<Rightarrow> event list \<times> (exn + AppOptions)" where
  "assign_stoi val upd = (case stoi val of Inl e \<Rightarrow> ([], Inl e) | Inr n \<Rightarrow> ([], Inr (upd n)))"

text \<open>The chain of comparisons on \<open>key\<close> (lines 150 to 212).\<close>

definition interpretParam :: "AppOptions \<Rightarrow> string \<Rightarrow> string \<Rightarrow> event list \<times> (exn + AppOptions)" where
  "interpretParam this key val =
     (if ''InputUdpPort'' = key then assign_stoi val (\<lambda>n. this\<lparr>inputUdpPort := n\<rparr>)
      else if ''MqttUrl'' = key then ([], Inr (this\<lparr>mqttUrl := val\<rparr>))
      else if ''MqttTopic'' = key then ([], Inr (this\<lparr>mqttTopic := val\<rparr>))
      else if ''MqttClientID'' = key then ([], Inr (this\<lparr>mqttClientID := val\<rparr>))
      else if ''MqttUsername'' = key then ([], Inr (this\<lparr>mqttUsername := val\<rparr>))
      else if ''MqttPassword'' = key then ([], Inr (this\<lparr>mqttPassword := val\<rparr>))
      else if ''MqttVersion'' = key then
        (if ''default'' = val then
           ([], Inr (this\<lparr>mqttVersion_str := val, mqttVersion := MQTTVERSION_DEFAULT\<rparr>))
         else if ''3.1'' = val then
           ([], Inr (this\<lparr>mqttVersion_str := val, mqttVersion := MQTTVERSION_3_1\<rparr>))
         else if ''3.1.1'' = val then
           ([], Inr (this\<lparr>mqttVersion_str := val, mqttVersion := MQTTVERSION_3_1_1\<rparr>))
         else if ''5'' = val then
           ([], Inr (this\<lparr>mqttVersion_str := val, mqttVersion := MQTTVERSION_5\<rparr>))
         else
           ([Stderr (''[ERROR] Invalid value for MqttVersion'' @ nl)],
            Inl (Runtime_error ''Config file: Invalid synatx'')))
      else if ''MqttQosLevel'' = key then assign_stoi val (\<lambda>n. this\<lparr>mqttQosLevel := n\<rparr>)
      else if ''MqttKeepAliveInterval'' = key then
        assign_stoi val (\<lambda>n. this\<lparr>mqttKeepAliveInterval := n\<rparr>)
      else if ''MqttRetryInterval'' = key then
        assign_stoi val (\<lambda>n. this\<lparr>mqttRetryInterval := n\<rparr>)
      else if ''MqttConnectionTimeout'' = key then
        assign_stoi val (\<lambda>n. this\<lparr>mqttConnectionTimeout := n\<rparr>)
      else if ''MqttSslEnableServerCertAuth'' = key then
        assign_stoi val (\<lambda>n. this\<lparr>mqttSslEnableServerCertAuth := n\<rparr>)
      else if ''MqttSslVersion'' = key then
        (if ''default'' = val then
           ([], Inr (this\<lparr>mqttSslVersion_str := val, mqttSslVersion := MQTT_SSL_VERSION_DEFAULT\<rparr>))
         else if ''1.0'' = val then
           ([], Inr (this\<lparr>mqttSslVersion_str := val, mqttSslVersion := MQTT_SSL_VERSION_TLS_1_0\<rparr>))
         else if ''1.1'' = val then
           ([], Inr (this\<lparr>mqttSslVersion_str := val, mqttSslVersion := MQTT_SSL_VERSION_TLS_1_0\<rparr>))
         else if ''1.2'' = val then
           ([], Inr (this\<lparr>mqttSslVersion_str := val, mqttSslVersion := MQTT_SSL_VERSION_TLS_1_0\<rparr>))
         else
           ([Stderr (''[ERROR] Invalid value for MqttSslVersion'' @ nl)],
            Inl (Runtime_error ''Config file: Invalid synatx'')))
      else if ''MqttSslVerify'' = key then assign_stoi val (\<lambda>n. this\<lparr>mqttSslVerify := n\<rparr>)
      else if ''MqttSslTrustStore'' = key then ([], Inr (this\<lparr>mqttSslTrustStore := val\<rparr>))
      else if ''MqttSslKeyStore'' = key then ([], Inr (this\<lparr>mqttSslKeyStore := val\<rparr>))
      else if ''MqttSslPrivateKey'' = key then ([], Inr (this\<lparr>mqttSslPrivateKey := val\<rparr>))
      else if ''MqttSslPrivateKeyPasswd'' = key then
        ([], Inr (this\<lparr>mqttSslPrivateKeyPasswd := val\<rparr>))
      else ([], Inr this))"

text \<open>
  One pass of the \<^verbatim>\<open>while (std::getline(...))\<close> body on the line with number \<open>lineNum\<close>
  (already incremented): comment and white space are trimmed, an empty line is skipped
  (\<^verbatim>\<open>continue\<close>), a line without a space is a syntax error, and otherwise the line is split
  at its first space into \<open>key\<close> and \<open>val\<close>.
\<close>

definition parseConfLine :: "AppOptions \<Rightarrow> int \<Rightarrow> string \<Rightarrow> event list \<times> (exn + AppOptions)" where
  "parseConfLine this lineNum line =
     (let confLine = trim (trimComment line) [CHR '' '', CHR 0x09] in
      if confLine = [] then ([], Inr this)
      else
        (case find_chr confLine CHR '' '' of
           None \<Rightarrow>
             ([Stderr (''[ERROR] Invalid parameter in .conf file at line '' @ show_int lineNum @ nl)],
              Inl (Runtime_error ''Config file: Invalid synatx''))
         | Some space \<Rightarrow>
             (let key = substr confLine 0 (Some space);
                  val = substr confLine (space + 1) (Some (length confLine - space))
              in interpretParam this key val)))"

fun parseConfLines :: "AppOptions \<Rightarrow> int \<Rightarrow> string list \<Rightarrow> event list \<times> (exn + AppOptions)" where
  "parseConfLines this lineNum [] = ([], Inr this)"
| "parseConfLines this lineNum (line # rest) =
     (case parseConfLine this (lineNum + 1) line of
        (out, Inl e) \<Rightarrow> (out, Inl e)
      | (out, Inr this') \<Rightarrow>
          (case parseConfLines this' (lineNum + 1) rest of (out', r) \<Rightarrow> (out @ out', r)))"

text \<open>The checks after the loop (lines 215 to 235): every failed check is reported.\<close>

definition checkConfiguration :: "AppOptions \<Rightarrow> event list \<times> bool" where
  "checkConfiguration this =
     ((if mqttUrl this = [] then
         [Stderr (''[ERROR] MqttUrl must be set in the configuration file'' @ nl)] else []) @
      (if mqttTopic this = [] then
         [Stderr (''[ERROR] MqttTopic must be set in the configuration file'' @ nl)] else []) @
      (if mqttClientID this = [] then
         [Stderr (''[ERROR] MqttClientID must be set in the configuration file'' @ nl)] else []) @
      (if mqttUsername this \<noteq> [] \<and> mqttPassword this = [] then
         [Stderr (''[ERROR] MqttPassword must be set when a username is given'' @ nl)] else []),
      \<not> (mqttUrl this = [] \<or> mqttTopic this = [] \<or> mqttClientID this = [] \<or>
         (mqttUsername this \<noteq> [] \<and> mqttPassword this = [])))"

text \<open>
  \<open>files path\<close> is the contents of the file at \<open>path\<close>, or \<open>None\<close> when it cannot be opened.
  The result is the exception thrown, or the returned flag with the object as the loop
  left it.
\<close>

definition parseConfFile ::
  "(string \<Rightarrow> string option) \<Rightarrow> AppOptions \<Rightarrow> event list \<times> (exn + bool \<times> AppOptions)" where
  "parseConfFile files this =
     (case files (confPath this) of
        None \<Rightarrow>
          ([Stderr (''[ERROR] Unable to open config file'' @ nl)],
           Inl (Runtime_error ''Unable to open config file''))
      | Some contents \<Rightarrow>
          (case parseConfLines this 0 (getlines [] contents) of
             (out, Inl e) \<Rightarrow> (out, Inl e)
           | (out, Inr this') \<Rightarrow>
               (case checkConfiguration this' of
                  (out', returnValue) \<Rightarrow> (out @ out', Inr (returnValue, this')))))"

definition printConfig :: "AppOptions \<Rightarrow> event list" where
  "printConfig this =
     [Stdout (''Configuration:'' @ nl),
      Stdout (''- Input UDP Port:       '' @ show_int (inputUdpPort this) @ nl),
      Stdout (''- MQTT URL:             '' @ mqttUrl this @ nl),
      Stdout (''- MQTT Topic:           '' @ mqttTopic this @ nl),
      Stdout (''- MQTT Client ID:       '' @ mqttClientID this @ nl)] @
     (if mqttUsername this \<noteq> [] then
        [Stdout (''- MQTT User Name:       '' @ mqttUsername this @ nl),
         Stdout (''- MQTT Password:        '' @ mqttPassword this @ nl)]
      else []) @
     [Stdout nl,
      Stdout (''- MQTT Version:         '' @ mqttVersion_str this @ nl),
      Stdout (''- MQTT QOS Level:       '' @ show_int (mqttQosLevel this) @ nl),
      Stdout (''- MQTT Keep Alive Int.: '' @ show_int (mqttKeepAliveInterval this) @ nl),
      Stdout (''- MQTT Retry Int.:      '' @ show_int (mqttRetryInterval this) @ nl),
      Stdout (''- TLS Server Cert Auth: '' @ show_int (mqttSslEnableServerCertAuth this) @ nl),
      Stdout (''- TLS Version:          '' @ mqttSslVersion_str this @ nl),
      Stdout (''- TLS Verify:           '' @ show_int (mqttSslVerify this) @ nl)] @
     (if mqttSslTrustStore this \<noteq> [] then
        [Stdout (''- TLS Trust Store:      '' @ mqttSslTrustStore this @ nl)]
      else []) @
     (if mqttSslKeyStore this \<noteq> [] then
        [Stdout (''- TLS Key Store:        '' @ mqttSslKeyStore this @ nl)]
      else []) @
     (if mqttSslPrivateKey this \<noteq> [] then
        [Stdout (''- TLS Private Key:      '' @ mqttSslPrivateKey this @ nl),
         Stdout (''- TLS Priv. Key Passwd: '' @ mqttSslPrivateKeyPasswd this @ nl)]
      else []) @
     [Stdout nl]"

subsection \<open>main: set-up\<close>

text \<open>
  What one pass of the forward loop gets from the outside: the datagram \<^verbatim>\<open>recvfrom\<close>
  delivers (\<open>None\<close> when the call fails and returns \<open>-1\<close>), the delivery token the library
  stores through \<^verbatim>\<open>&token\<close>, and the return code of \<^verbatim>\<open>MQTTClient_waitForCompletion\<close>.
\<close>

record loop_input =
  recvfrom_result :: "string option"
  publish_token :: int
  wait_rc :: int

text \<open>
  The outside world of one run: the command line, the version string of the generated
  \<^verbatim>\<open>version.h\<close>, the file system, the return values of \<^verbatim>\<open>socket\<close>, \<^verbatim>\<open>bind\<close> and
  \<^verbatim>\<open>MQTTClient_connect\<close>, the initial contents of the uninitialised \<^verbatim>\<open>msgBuffer\<close>, and
  what the passes of the forward loop get. The list of passes is finite: after the last
  one the program is blocked in \<^verbatim>\<open>recvfrom\<close>, waiting for the next datagram.
\<close>

record environment =
  argv0 :: string
  args :: "string list"
  GIT_VERSION_TAG :: string
  files :: "string \<Rightarrow> string option"
  socket_ret :: int
  bind_ret :: int
  connect_ret :: int
  msgBuffer_init :: string
  loop_inputs :: "loop_input list"

text \<open>
  The SSL options and connect options as \<open>main\<close> fills them in (lines 380 to 412). The
  library's initialisers leave every pointer field \<^verbatim>\<open>NULL\<close>, here \<open>None\<close>.
\<close>

definition mqttSslOpts_of :: "AppOptions \<Rightarrow> MQTTClient_SSLOptions" where
  "mqttSslOpts_of options =
     \<lparr> enableServerCertAuth = mqttSslEnableServerCertAuth options,
       sslVersion = mqttSslVersion options,
       verify = mqttSslVerify options,
       trustStore =
         (if mqttSslTrustStore options \<noteq> [] then Some (c_str (mqttSslTrustStore options)) else None),
       keyStore =
         (if mqttSslKeyStore options \<noteq> [] then Some (c_str (mqttSslKeyStore options)) else None),
       privateKey =
         (if mqttSslPrivateKey options \<noteq> [] then Some (c_str (mqttSslPrivateKey options)) else None),
       privateKeyPassword =
         (if mqttSslPrivateKeyPasswd options \<noteq> []
          then Some (c_str (mqttSslPrivateKeyPasswd options)) else None) \<rparr>"

definition mqttConnOpts_of :: "AppOptions \<Rightarrow> MQTTClient_connectOptions" where
  "mqttConnOpts_of options =
     \<lparr> keepAliveInterval = mqttKeepAliveInterval options,
       cleansession = 1,
       connectTimeout = mqttConnectionTimeout options,
       retryInterval = mqttRetryInterval options,
       username =
         (if mqttUsername options \<noteq> [] then Some (c_str (mqttUsername options)) else None),
       password =
         (if mqttUsername options \<noteq> [] then Some (c_str (mqttPassword options)) else None),
       MQTTVersion = mqttVersion options,
       ssl = Some (mqttSslOpts_of options) \<rparr>"

definition connect_error_text :: "int \<Rightarrow> string" where
  "connect_error_text mqttRC =
     (if mqttRC = - 1 then ''Unacceptable protocol version'' @ nl
      else if mqttRC = - 2 then ''Identifier rejected'' @ nl
      else if mqttRC = - 3 then ''Server unavailabl'' @ nl
      else if mqttRC = - 4 then ''Bad user name or password'' @ nl
      else if mqttRC = - 5 then ''Not authorized'' @ nl
      else ''Unknown error code'' @ nl)"

subsection \<open>main: the forward loop\<close>

text \<open>
  \<^verbatim>\<open>recvfrom(sockfd, &msgBuffer[0], UDP_BUFFER_SIZE, ...)\<close>: at most \<open>UDP_BUFFER_SIZE\<close> bytes
  of the datagram overwrite the front of the buffer and their number is returned; a failed
  call returns \<open>-1\<close> and leaves the buffer as it was.
\<close>

definition recvfrom :: "string \<Rightarrow> string option \<Rightarrow> string \<times> int" where
  "recvfrom msgBuffer r =
     (case r of
        None \<Rightarrow> (msgBuffer, - 1)
      | Some datagram \<Rightarrow>
          (let n = min (length datagram) UDP_BUFFER_SIZE
           in (take n datagram @ drop n msgBuffer, int n)))"

text \<open>One pass of \<^verbatim>\<open>while (true)\<close> (lines 447 to 477): the new buffer and the events.\<close>

definition loop_iteration :: "AppOptions \<Rightarrow> string \<Rightarrow> loop_input \<Rightarrow> string \<times> event list" where
  "loop_iteration options msgBuffer inp =
     (case recvfrom msgBuffer (recvfrom_result inp) of
        (msgBuffer', msgLen) \<Rightarrow>
          (let pubmsg = \<lparr> payload = msgBuffer', payloadlen = msgLen,
                          qos = mqttQosLevel options, retained = 0 \<rparr>;
               token = publish_token inp;
               mqttRC = wait_rc inp
           in (msgBuffer',
               [Call_recvfrom msgLen] @
               (if verbosity options \<ge> 2 then [Stdout (''[DEBUG] Got a new message'' @ nl)] else []) @
               [Call_MQTTClient_publishMessage (c_str (mqttTopic options)) pubmsg,
                Call_MQTTClient_waitForCompletion token (mqttConnectionTimeout options) mqttRC] @
               (if MQTTCLIENT_SUCCESS \<noteq> mqttRC then
                  [Stdout (''[ERROR] Failed to publish MQTT message, error '' @ show_int mqttRC @ nl)]
                else []) @
               (if verbosity options \<ge> 2 then
                  [Stdout (''[DEBUG] Successfully published message to MQTT'' @ nl)]
                else []))))"

fun main_loop :: "AppOptions \<Rightarrow> string \<Rightarrow> loop_input list \<Rightarrow> string \<times> event list" where
  "main_loop options msgBuffer [] = (msgBuffer, [])"
| "main_loop options msgBuffer (inp # rest) =
     (case loop_iteration options msgBuffer inp of
        (msgBuffer', out) \<Rightarrow>
          (case main_loop options msgBuffer' rest of
             (msgBuffer'', out') \<Rightarrow> (msgBuffer'', out @ out')))"

subsection \<open>main\<close>

text \<open>
  From the socket set-up to the forward loop (lines 343 to 477), for options that passed
  \<open>parseConfFile\<close>. \<^verbatim>\<open>htons\<close> takes a 16-bit value, so the port bound is the configured one
  modulo \<open>65536\<close>.
\<close>

definition main_run :: "environment \<Rightarrow> AppOptions \<Rightarrow> event list \<times> outcome" where
  "main_run env options =
     (let out1 = (if verbosity options \<ge> 1 then printConfig options else []);
          sockfd = socket_ret env
      in if sockfd < 0 then
           (out1 @ [Call_socket sockfd,
                    Stderr (''[ERROR] Could not create IPv4 UDP socket'' @ nl)],
            Exit EXIT_FAILURE)
         else
           (let retVal = bind_ret env;
                out2 = out1 @ [Call_socket sockfd,
                               Call_bind (inputUdpPort options mod 65536) retVal]
            in if 0 > retVal then
                 (out2 @ [Stderr (''[ERROR] Could not bind UDP socket to port '' @
                                  show_int (inputUdpPort options) @ nl)],
                  Exit EXIT_FAILURE)
               else
                 (let mqttRC = connect_ret env;
                      out3 = out2 @
                        (if verbosity options \<ge> 1
                         then [Stdout (''[INFO ] Successfully opened UDP port'' @ nl)] else []) @
                        [Call_MQTTClient_create (c_str (mqttUrl options)) (c_str (mqttClientID options)),
                         Call_MQTTClient_connect (mqttConnOpts_of options) mqttRC]
                  in if MQTTCLIENT_SUCCESS \<noteq> mqttRC then
                       (out3 @
                        [Stderr (''[ERROR] Failed to connect to MQTT broker, error '' @
                                 show_int mqttRC @ '':''),
                         Stderr (connect_error_text mqttRC)],
                        Exit EXIT_FAILURE)
                     else
                       (out3 @
                        (if verbosity options \<ge> 1
                         then [Stdout (''[INFO ] Successfully connected to MQTT broker'' @ nl)]
                         else []) @
                        snd (main_loop options (msgBuffer_init env) (loop_inputs env)),
                        Blocked_in_recvfrom))))"

text \<open>
  \<open>main\<close> catches \<^verbatim>\<open>std::invalid_argument\<close> and \<^verbatim>\<open>std::runtime_error\<close>; \<^verbatim>\<open>std::out_of_range\<close>
  is neither, so it leaves \<open>main\<close>. The handlers installed with \<^verbatim>\<open>signal\<close> run
  asynchronously and are outside this model.
\<close>

definition main :: "environment \<Rightarrow> event list \<times> outcome" where
  "main env =
     (let out0 = [Stdout (''UDP MQTT Gateway, Version '' @ GIT_VERSION_TAG env @ nl)] in
      case AppOptions_ctor (argv0 env) (args env) of
        (out1, Inl code) \<Rightarrow> (out0 @ out1, Exit code)
      | (out1, Inr options0) \<Rightarrow>
          (let out2 = out0 @ out1 @
                 [Stdout (''Using configuration file: '' @ confPath options0 @ nl @ nl)]
           in case parseConfFile (files env) options0 of
                (out3, Inl e) \<Rightarrow>
                  (case e of
                     Runtime_error msg \<Rightarrow>
                       (out2 @ out3 @
                        [Stdout (''[INFO ] Exiting, because of an error parsing configuration'' @ nl)],
                        Exit EXIT_FAILURE)
                   | Invalid_argument \<Rightarrow>
                       (out2 @ out3 @
                        [Stdout (''[INFO ] Exiting, because of an error parsing configuration'' @ nl)],
                        Exit EXIT_FAILURE)
                   | Out_of_range \<Rightarrow> (out2 @ out3, Uncaught Out_of_range))
              | (out3, Inr (returnValue, options)) \<Rightarrow>
                  (if \<not> returnValue then
                     (out2 @ out3 @
                      [Stdout (''[INFO ] Exiting, because of invalid configuration'' @ nl)],
                      Exit EXIT_FAILURE)
                   else
                     (case main_run env options of
                        (out4, r) \<Rightarrow> (out2 @ out3 @ out4, r)))))"

subsection \<open>Observations on a trace\<close>

fun published :: "event list \<Rightarrow> (string \<times> MQTTClient_message) list" where
  "published [] = []"
| "published (Call_MQTTClient_publishMessage topic msg # es) = (topic, msg) # published es"
| "published (e # es) = published es"

fun received :: "event list \<Rightarrow> int list" where
  "received [] = []"
| "received (Call_recvfrom msgLen # es) = msgLen # received es"
| "received (e # es) = received es"

fun is_output :: "event \<Rightarrow> bool" where
  "is_output (Stdout s) = True"
| "is_output (Stderr s) = True"
| "is_output e = False"

fun is_socket_call :: "event \<Rightarrow> bool" where
  "is_socket_call (Call_socket r) = True"
| "is_socket_call (Call_bind port r) = True"
| "is_socket_call e = False"

text \<open>The bytes the library is told to send: the first \<open>payloadlen\<close> bytes at \<open>payload\<close>.\<close>

definition payload_bytes :: "MQTTClient_message \<Rightarrow> string" where
  "payload_bytes msg = take (nat (payloadlen msg)) (payload msg)"

fun connect_calls :: "event list \<Rightarrow> MQTTClient_connectOptions list" where
  "connect_calls [] = []"
| "connect_calls (Call_MQTTClient_connect opts r # es) = opts # connect_calls es"
| "connect_calls (e # es) = connect_calls es"

subsection \<open>Example inputs\<close>

text \<open>
  The scenario of the specification: port 9999, topic \<^verbatim>\<open>sensors/1\<close>, QoS 0, and the
  datagram \<^verbatim>\<open>01 02 03\<close>.
\<close>

definition example_options :: AppOptions where
  "example_options =
     (AppOptions_defaults ''udpmqttgw'')
       \<lparr> inputUdpPort := 9999, mqttUrl := ''tcp://localhost:1883'',
         mqttTopic := ''sensors/1'', mqttClientID := ''gw'' \<rparr>"

definition example_datagram :: string where
  "example_datagram = [CHR 0x01, CHR 0x02, CHR 0x03]"

definition example_input :: loop_input where
  "example_input = \<lparr> recvfrom_result = Some example_datagram, publish_token = 1, wait_rc = 0 \<rparr>"

definition failing_publish :: loop_input where
  "failing_publish = \<lparr> recvfrom_result = Some ''lost'', publish_token = 0, wait_rc = - 1 \<rparr>"

definition failing_receive :: loop_input where
  "failing_receive = \<lparr> recvfrom_result = None, publish_token = 2, wait_rc = 0 \<rparr>"

text \<open>A file given as its lines, each ended by a newline.\<close>

definition file_of_lines :: "string list \<Rightarrow> string" where
  "file_of_lines ls = concat (map (\<lambda>l. l @ nl) ls)"

definition example_env :: "string \<Rightarrow> loop_input list \<Rightarrow> environment" where
  "example_env contents inputs =
     \<lparr> argv0 = ''udpmqttgw'', args = [], GIT_VERSION_TAG = ''v1.0'',
       files = (\<lambda>path. if path = CONF_FILE then Some contents else None),
       socket_ret = 3, bind_ret = 0, connect_ret = 0,
       msgBuffer_init = replicate 2048 (CHR 0x00),
       loop_inputs = inputs \<rparr>"

text \<open>A value that \<^verbatim>\<open>std::stoi\<close> can return: within the range of a 32-bit \<^verbatim>\<open>int\<close>.\<close>

definition fits_int :: "int \<Rightarrow> bool" where
  "fits_int n = (INT_MIN \<le> n \<and> n \<le> INT_MAX)"

text \<open>The keys whose branch of \<open>interpretParam\<close> converts the value with \<^verbatim>\<open>std::stoi\<close>.\<close>

definition numeric_keys :: "string list" where
  "numeric_keys =
     [''InputUdpPort'', ''MqttQosLevel'', ''MqttKeepAliveInterval'', ''MqttRetryInterval'',
      ''MqttConnectionTimeout'', ''MqttSslEnableServerCertAuth'', ''MqttSslVerify'']"

text \<open>Configuration files of the examples.\<close>

definition conf_without_url :: string where
  "conf_without_url =
     file_of_lines [''InputUdpPort 9999'', ''MqttTopic sensors/1'', ''MqttClientID gw'']"

definition conf_without_port :: string where
  "conf_without_port =
     file_of_lines [''MqttUrl tcp://localhost:1883'', ''MqttTopic sensors/1'', ''MqttClientID gw'']"

definition conf_qos_7 :: string where
  "conf_qos_7 =
     file_of_lines [''InputUdpPort 9999'', ''MqttUrl tcp://localhost:1883'',
       ''MqttTopic sensors/1'', ''MqttClientID gw'', ''MqttQosLevel 7'']"

definition conf_bad_qos :: string where
  "conf_bad_qos = file_of_lines [''MqttUrl tcp://localhost:1883'', ''MqttQosLevel high'']"

definition conf_bad_port :: string where
  "conf_bad_port = file_of_lines [''InputUdpPort abc'']"

text \<open>A topic with a NUL byte in it, and files on which the parsing loop throws.\<close>

definition nul_topic :: string where
  "nul_topic = ''sens'' @ [CHR 0x00] @ ''ors/1''"

definition conf_nul_topic :: string where
  "conf_nul_topic =
     file_of_lines [''InputUdpPort 9999'', ''MqttUrl tcp://localhost:1883'',
       ''MqttTopic '' @ nul_topic, ''MqttClientID gw'']"

definition conf_without_url_bad_port :: string where
  "conf_without_url_bad_port =
     file_of_lines [''MqttTopic sensors/1'', ''MqttClientID gw'', ''InputUdpPort abc'']"

definition conf_url_without_value :: string where
  "conf_url_without_value =
     file_of_lines [''MqttTopic sensors/1'', ''MqttUrl '', ''MqttClientID gw'']"

definition conf_username_bad_qos :: string where
  "conf_username_bad_qos =
     file_of_lines [''MqttUrl tcp://localhost:1883'', ''MqttTopic sensors/1'',
       ''MqttClientID gw'', ''MqttUsername bob'', ''MqttQosLevel high'']"

definition conf_username_password_without_value :: string where
  "conf_username_password_without_value =
     file_of_lines [''MqttUrl tcp://localhost:1883'', ''MqttTopic sensors/1'',
       ''MqttClientID gw'', ''MqttUsername bob'', ''MqttPassword '']"

section \<open>Properties\<close>

subsection \<open>Observations distribute over the trace\<close>

lemma published_append: "published (xs @ ys) = published xs @ published ys"
  by (induction xs rule: published.induct) simp_all

lemma received_append: "received (xs @ ys) = received xs @ received ys"
  by (induction xs rule: received.induct) simp_all

lemma connect_calls_append: "connect_calls (xs @ ys) = connect_calls xs @ connect_calls ys"
  by (induction xs rule: connect_calls.induct) simp_all

lemma received_printConfig: "received (printConfig options) = []"
  by (simp add: printConfig_def received_append)

lemma published_printConfig: "published (printConfig options) = []"
  by (simp add: printConfig_def published_append)

lemma connect_calls_printConfig: "connect_calls (printConfig options) = []"
  by (simp add: printConfig_def connect_calls_append)

subsection \<open>Strings and numbers\<close>

lemma c_str_no_nul: "CHR 0x00 \<notin> set s \<Longrightarrow> c_str s = s"
  unfolding c_str_def by (induction s) auto

text \<open>
  \<^verbatim>\<open>std::stoi\<close> converts a numeric prefix and ignores the rest, and a value outside the
  range of an \<^verbatim>\<open>int\<close> is a \<^verbatim>\<open>std::out_of_range\<close>, which no handler of \<open>main\<close> catches.
\<close>

text \<open>When \<^verbatim>\<open>std::stoi\<close> throws \<^verbatim>\<open>std::invalid_argument\<close>: no digit follows the white space and the sign.\<close>

lemma stoi_invalid_argument_iff:
  "stoi str = Inl Invalid_argument \<longleftrightarrow>
     takeWhile isdigit
       (if dropWhile isspace str \<noteq> [] \<and>
           (hd (dropWhile isspace str) = CHR ''-'' \<or> hd (dropWhile isspace str) = CHR ''+'')
        then tl (dropWhile isspace str) else dropWhile isspace str) = []"
  by (simp add: stoi_def Let_def)

lemma stoi_numeric_prefix: "stoi ''12abc'' = Inr 12"
  by code_simp

lemma stoi_out_of_range: "stoi ''99999999999'' = Inl Out_of_range"
  by code_simp

lemma main_out_of_range_uncaught:
  "main (example_env (file_of_lines [''MqttQosLevel 99999999999'']) []) =
     ([Stdout (''UDP MQTT Gateway, Version v1.0'' @ nl),
       Stdout (''Using configuration file: /etc/udpmqttgw.conf'' @ nl @ nl)],
      Uncaught Out_of_range)"
  by code_simp

subsection \<open>One pass of the forward loop\<close>

lemma fst_iteration:
  "fst (loop_iteration options buf inp) = fst (recvfrom buf (recvfrom_result inp))"
  by (simp add: loop_iteration_def Let_def split: prod.splits)

lemma received_iteration:
  "received (snd (loop_iteration options buf inp)) = [snd (recvfrom buf (recvfrom_result inp))]"
  by (simp add: loop_iteration_def Let_def received_append split: prod.splits)

lemma published_iteration:
  "published (snd (loop_iteration options buf inp)) =
     [(c_str (mqttTopic options),
       \<lparr> payload = fst (recvfrom buf (recvfrom_result inp)),
         payloadlen = snd (recvfrom buf (recvfrom_result inp)),
         qos = mqttQosLevel options, retained = 0 \<rparr>)]"
  by (simp add: loop_iteration_def Let_def published_append split: prod.splits)

lemma connect_calls_iteration: "connect_calls (snd (loop_iteration options buf inp)) = []"
  by (simp add: loop_iteration_def Let_def connect_calls_append split: prod.splits)

lemma error_line_iteration:
  "wait_rc x \<noteq> MQTTCLIENT_SUCCESS \<Longrightarrow>
   Stdout (''[ERROR] Failed to publish MQTT message, error '' @ show_int (wait_rc x) @ nl)
     \<in> set (snd (loop_iteration options buf x))"
  by (auto simp add: loop_iteration_def Let_def split: prod.splits)

lemma recvfrom_payload:
  "length datagram \<le> UDP_BUFFER_SIZE \<Longrightarrow>
   take (nat (snd (recvfrom buf (Some datagram)))) (fst (recvfrom buf (Some datagram))) = datagram"
  by (simp add: recvfrom_def Let_def min_def)

lemma recvfrom_Some_length:
  "snd (recvfrom buf (Some datagram)) = int (min (length datagram) UDP_BUFFER_SIZE)"
  by (simp add: recvfrom_def Let_def)

lemma recvfrom_Some_payload:
  "take (min (length datagram) UDP_BUFFER_SIZE) (fst (recvfrom buf (Some datagram)))
     = take UDP_BUFFER_SIZE datagram"
  by (simp add: recvfrom_def Let_def min_def)

subsection \<open>The forward loop\<close>

lemma main_loop_Cons:
  "main_loop options buf (inp # rest) =
     (fst (main_loop options (fst (loop_iteration options buf inp)) rest),
      snd (loop_iteration options buf inp) @
      snd (main_loop options (fst (loop_iteration options buf inp)) rest))"
  by (simp split: prod.splits)

lemma main_loop_append:
  "main_loop options buf (xs @ ys) =
     (fst (main_loop options (fst (main_loop options buf xs)) ys),
      snd (main_loop options buf xs) @ snd (main_loop options (fst (main_loop options buf xs)) ys))"
  by (induction xs arbitrary: buf) (simp_all add: main_loop_Cons del: main_loop.simps(2))

lemma length_published_loop:
  "length (published (snd (main_loop options buf inputs))) = length inputs"
  by (induction inputs arbitrary: buf)
     (simp_all add: main_loop_Cons published_append published_iteration del: main_loop.simps(2))

lemma length_received_loop:
  "length (received (snd (main_loop options buf inputs))) = length inputs"
  by (induction inputs arbitrary: buf)
     (simp_all add: main_loop_Cons received_append received_iteration del: main_loop.simps(2))

lemma connect_calls_loop: "connect_calls (snd (main_loop options buf inputs)) = []"
  by (induction inputs arbitrary: buf)
     (simp_all add: main_loop_Cons connect_calls_append connect_calls_iteration
        del: main_loop.simps(2))

text \<open>The publish of pass \<open>i\<close> reads the buffer as the passes before it left it.\<close>

lemma nth_published_loop:
  "i < length inputs \<Longrightarrow>
   published (snd (main_loop options buf inputs)) ! i =
     (c_str (mqttTopic options),
      \<lparr> payload = fst (recvfrom (fst (main_loop options buf (take i inputs)))
                      (recvfrom_result (inputs ! i))),
        payloadlen = snd (recvfrom (fst (main_loop options buf (take i inputs)))
                      (recvfrom_result (inputs ! i))),
        qos = mqttQosLevel options, retained = 0 \<rparr>)"
proof (induction inputs arbitrary: buf i)
  case Nil
  then show ?case by simp
next
  case (Cons inp rest)
  show ?case
  proof (cases i)
    case 0
    then show ?thesis
      by (simp add: main_loop_Cons published_append published_iteration del: main_loop.simps(2))
  next
    case (Suc j)
    with Cons.prems have "j < length rest" by simp
    from Cons.IH [OF this, of "fst (loop_iteration options buf inp)"] Suc show ?thesis
      by (simp add: main_loop_Cons published_append published_iteration del: main_loop.simps(2))
  qed
qed

lemma nth_received_loop:
  "i < length inputs \<Longrightarrow>
   received (snd (main_loop options buf inputs)) ! i =
     snd (recvfrom (fst (main_loop options buf (take i inputs))) (recvfrom_result (inputs ! i)))"
proof (induction inputs arbitrary: buf i)
  case Nil
  then show ?case by simp
next
  case (Cons inp rest)
  show ?case
  proof (cases i)
    case 0
    then show ?thesis
      by (simp add: main_loop_Cons received_append received_iteration del: main_loop.simps(2))
  next
    case (Suc j)
    with Cons.prems have "j < length rest" by simp
    from Cons.IH [OF this, of "fst (loop_iteration options buf inp)"] Suc show ?thesis
      by (simp add: main_loop_Cons received_append received_iteration del: main_loop.simps(2))
  qed
qed

lemma received_loop:
  "received (snd (main_loop options buf (xs @ x # ys))) =
     received (snd (main_loop options buf xs)) @
     snd (recvfrom (fst (main_loop options buf xs)) (recvfrom_result x)) #
     received (snd (main_loop options
        (fst (recvfrom (fst (main_loop options buf xs)) (recvfrom_result x))) ys))"
  by (simp add: main_loop_append main_loop_Cons received_append received_iteration fst_iteration
      del: main_loop.simps(2))

lemma published_loop:
  "published (snd (main_loop options buf (xs @ x # ys))) =
     published (snd (main_loop options buf xs)) @
     (c_str (mqttTopic options),
       \<lparr> payload = fst (recvfrom (fst (main_loop options buf xs)) (recvfrom_result x)),
         payloadlen = snd (recvfrom (fst (main_loop options buf xs)) (recvfrom_result x)),
         qos = mqttQosLevel options, retained = 0 \<rparr>) #
     published (snd (main_loop options
        (fst (recvfrom (fst (main_loop options buf xs)) (recvfrom_result x))) ys))"
  by (simp add: main_loop_append main_loop_Cons published_append published_iteration fst_iteration
      del: main_loop.simps(2))

subsection \<open>A run that reached the forward loop\<close>

lemma main_run_started:
  assumes "0 \<le> socket_ret env" and "0 \<le> bind_ret env" and "connect_ret env = MQTTCLIENT_SUCCESS"
  shows "snd (main_run env options) = Blocked_in_recvfrom"
    and "received (fst (main_run env options)) =
           received (snd (main_loop options (msgBuffer_init env) (loop_inputs env)))"
    and "published (fst (main_run env options)) =
           published (snd (main_loop options (msgBuffer_init env) (loop_inputs env)))"
    and "set (snd (main_loop options (msgBuffer_init env) (loop_inputs env)))
           \<subseteq> set (fst (main_run env options))"
  using assms
  by (auto simp add: main_run_def Let_def received_append published_append
      received_printConfig published_printConfig)

lemma connect_calls_main_run:
  "connect_calls (fst (main_run env options)) = [] \<or>
   connect_calls (fst (main_run env options)) = [mqttConnOpts_of options]"
  by (simp add: main_run_def Let_def connect_calls_append connect_calls_printConfig
      connect_calls_loop)

subsection \<open>The checks of parseConfFile\<close>

lemma parseConfFile_Inr:
  "parseConfFile fs this = (out, Inr (returnValue, this')) \<Longrightarrow>
   \<exists>out1. parseConfLines this 0 (getlines [] (the (fs (confPath this)))) = (out1, Inr this') \<and>
          out = out1 @ fst (checkConfiguration this') \<and>
          returnValue = snd (checkConfiguration this')"
  by (auto simp: parseConfFile_def split: option.splits prod.splits sum.splits)

lemma checkConfiguration_credentials:
  "mqttUsername this \<noteq> [] \<Longrightarrow> mqttPassword this = [] \<Longrightarrow>
   \<not> snd (checkConfiguration this) \<and>
   Stderr (''[ERROR] MqttPassword must be set when a username is given'' @ nl)
     \<in> set (fst (checkConfiguration this))"
  by (simp add: checkConfiguration_def)

lemma checkConfiguration_no_username:
  "mqttUrl this \<noteq> [] \<Longrightarrow> mqttTopic this \<noteq> [] \<Longrightarrow> mqttClientID this \<noteq> [] \<Longrightarrow>
   mqttUsername this = [] \<Longrightarrow> checkConfiguration this = ([], True)"
  by (simp add: checkConfiguration_def)

lemma checkConfiguration_required:
  "mqttUrl this = [] \<or> mqttTopic this = [] \<or> mqttClientID this = [] \<Longrightarrow>
   \<not> snd (checkConfiguration this)"
  by (auto simp add: checkConfiguration_def)

lemma checkConfiguration_names_field:
  "(mqttUrl this = [] \<longrightarrow>
      Stderr (''[ERROR] MqttUrl must be set in the configuration file'' @ nl)
        \<in> set (fst (checkConfiguration this))) \<and>
   (mqttTopic this = [] \<longrightarrow>
      Stderr (''[ERROR] MqttTopic must be set in the configuration file'' @ nl)
        \<in> set (fst (checkConfiguration this))) \<and>
   (mqttClientID this = [] \<longrightarrow>
      Stderr (''[ERROR] MqttClientID must be set in the configuration file'' @ nl)
        \<in> set (fst (checkConfiguration this)))"
  by (simp add: checkConfiguration_def)

subsection \<open>Everything before the socket set-up only writes to the streams\<close>

lemma outputs_no_socket_call: "list_all is_output es \<Longrightarrow> filter is_socket_call es = []"
proof (induction es)
  case Nil
  then show ?case by simp
next
  case (Cons e es)
  then show ?case by (cases e) simp_all
qed

lemma printUsageShort_outputs: "list_all is_output (printUsageShort this)"
  by (simp add: printUsageShort_def)

lemma printUsage_outputs: "list_all is_output (printUsage this)"
  by (simp add: printUsage_def printUsageShort_outputs)

lemma parseCliArgs_outputs: "list_all is_output (fst (parseCliArgs this cliArgs))"
  by (induction cliArgs arbitrary: this)
     (simp_all add: printUsage_outputs printUsageShort_outputs)

lemma assign_stoi_cases:
  "assign_stoi val upd = ([], case stoi val of Inl e \<Rightarrow> Inl e | Inr n \<Rightarrow> Inr (upd n))"
  by (simp add: assign_stoi_def split: sum.splits)

lemma interpretParam_outputs: "list_all is_output (fst (interpretParam this key val))"
  by (simp add: interpretParam_def assign_stoi_cases)

lemma parseConfLine_outputs: "list_all is_output (fst (parseConfLine this lineNum line))"
  by (simp add: parseConfLine_def Let_def interpretParam_outputs split: option.splits)

lemma parseConfLines_outputs: "list_all is_output (fst (parseConfLines this lineNum lines))"
proof (induction lines arbitrary: this lineNum)
  case Nil
  then show ?case by simp
next
  case (Cons line rest)
  from parseConfLine_outputs [of this "lineNum + 1" line] Cons.IH show ?case
    by (auto split: prod.splits sum.splits
        simp: prod_eq_iff dest: arg_cong [where f = fst])
qed

lemma checkConfiguration_outputs: "list_all is_output (fst (checkConfiguration this))"
  by (simp add: checkConfiguration_def)

lemma parseConfFile_outputs: "list_all is_output (fst (parseConfFile fs this))"
proof (cases "fs (confPath this)")
  case None
  then show ?thesis by (simp add: parseConfFile_def)
next
  case (Some contents)
  obtain out r where e: "parseConfLines this 0 (getlines [] contents) = (out, r)"
    by fastforce
  with parseConfLines_outputs [of this 0 "getlines [] contents"]
  have o: "list_all is_output out" by simp
  show ?thesis
  proof (cases r)
    case (Inl ex)
    with Some e o show ?thesis by (simp add: parseConfFile_def)
  next
    case (Inr this')
    obtain out' rv where c: "checkConfiguration this' = (out', rv)"
      by fastforce
    with checkConfiguration_outputs [of this'] have "list_all is_output out'" by simp
    with Some e o Inr c show ?thesis by (simp add: parseConfFile_def)
  qed
qed

subsection \<open>How main leaves after parseConfFile\<close>

lemma main_invalid_configuration:
  assumes "AppOptions_ctor (argv0 env) (args env) = (out1, Inr options0)"
    and "parseConfFile (files env) options0 = (out3, Inr (False, options))"
  shows "main env =
     ([Stdout (''UDP MQTT Gateway, Version '' @ GIT_VERSION_TAG env @ nl)] @ out1 @
      [Stdout (''Using configuration file: '' @ confPath options0 @ nl @ nl)] @ out3 @
      [Stdout (''[INFO ] Exiting, because of invalid configuration'' @ nl)],
      Exit EXIT_FAILURE)"
  using assms by (simp add: main_def Let_def)

lemma main_invalid_argument:
  assumes "AppOptions_ctor (argv0 env) (args env) = (out1, Inr options0)"
    and "parseConfFile (files env) options0 = (out3, Inl Invalid_argument)"
  shows "main env =
     ([Stdout (''UDP MQTT Gateway, Version '' @ GIT_VERSION_TAG env @ nl)] @ out1 @
      [Stdout (''Using configuration file: '' @ confPath options0 @ nl @ nl)] @ out3 @
      [Stdout (''[INFO ] Exiting, because of an error parsing configuration'' @ nl)],
      Exit EXIT_FAILURE)"
  using assms by (simp add: main_def Let_def)

lemma main_runtime_error:
  assumes "AppOptions_ctor (argv0 env) (args env) = (out1, Inr options0)"
    and "parseConfFile (files env) options0 = (out3, Inl (Runtime_error msg))"
  shows "main env =
     ([Stdout (''UDP MQTT Gateway, Version '' @ GIT_VERSION_TAG env @ nl)] @ out1 @
      [Stdout (''Using configuration file: '' @ confPath options0 @ nl @ nl)] @ out3 @
      [Stdout (''[INFO ] Exiting, because of an error parsing configuration'' @ nl)],
      Exit EXIT_FAILURE)"
  using assms by (simp add: main_def Let_def)

subsection \<open>The numeric fields\<close>

lemma stoi_range: "stoi s = Inr n \<Longrightarrow> fits_int n"
  by (auto simp: stoi_def Let_def fits_int_def split: if_splits)

lemma interpretParam_qos_sum:
  "pred_sum (\<lambda>e. True)
     (\<lambda>this'. mqttQosLevel this' = mqttQosLevel this \<or> stoi val = Inr (mqttQosLevel this'))
     (snd (interpretParam this key val))"
  by (cases "stoi val") (simp_all add: interpretParam_def assign_stoi_cases)

lemma interpretParam_qos:
  "interpretParam this key val = (out, Inr this') \<Longrightarrow>
   mqttQosLevel this' = mqttQosLevel this \<or> stoi val = Inr (mqttQosLevel this')"
  using interpretParam_qos_sum [of this val key] by simp

lemma parseConfLine_qos:
  "parseConfLine this lineNum line = (out, Inr this') \<Longrightarrow>
   fits_int (mqttQosLevel this) \<Longrightarrow> fits_int (mqttQosLevel this')"
  by (auto simp: parseConfLine_def Let_def split: if_splits option.splits
      dest!: interpretParam_qos dest: stoi_range)

lemma parseConfLines_qos:
  "parseConfLines this lineNum lines = (out, Inr this') \<Longrightarrow>
   fits_int (mqttQosLevel this) \<Longrightarrow> fits_int (mqttQosLevel this')"
proof (induction lines arbitrary: this lineNum out)
  case Nil
  then show ?case by simp
next
  case (Cons line rest)
  from Cons.prems(1) obtain o1 this1 o2 where
    l: "parseConfLine this (lineNum + 1) line = (o1, Inr this1)"
    and r: "parseConfLines this1 (lineNum + 1) rest = (o2, Inr this')"
    by (auto split: prod.splits sum.splits)
  from parseConfLine_qos [OF l Cons.prems(2)] Cons.IH [OF r] show ?case by blast
qed

lemma parseCliArgs_qos:
  "parseCliArgs this cliArgs = (out, Inr this') \<Longrightarrow> mqttQosLevel this' = mqttQosLevel this"
  by (induction cliArgs arbitrary: this out) (auto split: if_splits)

lemma qos_published_loop:
  "list_all (\<lambda>(topic, msg). qos msg = mqttQosLevel options)
     (published (snd (main_loop options buf inputs)))"
  by (induction inputs arbitrary: buf)
     (simp_all add: main_loop_Cons published_append published_iteration del: main_loop.simps(2))

lemma published_main_run:
  "published (fst (main_run env options)) = [] \<or>
   published (fst (main_run env options)) =
     published (snd (main_loop options (msgBuffer_init env) (loop_inputs env)))"
  by (simp add: main_run_def Let_def published_append published_printConfig)

lemma find_chr_append: "c \<notin> set key \<Longrightarrow> find_chr (key @ c # val) c = Some (length key)"
  by (induction key) auto

lemma numeric_keys_no_space: "key \<in> set numeric_keys \<Longrightarrow> CHR '' '' \<notin> set key"
  by (auto simp: numeric_keys_def)

lemma interpretParam_stoi:
  "interpretParam this ''InputUdpPort'' val = assign_stoi val (\<lambda>n. this\<lparr>inputUdpPort := n\<rparr>)"
  "interpretParam this ''MqttQosLevel'' val = assign_stoi val (\<lambda>n. this\<lparr>mqttQosLevel := n\<rparr>)"
  "interpretParam this ''MqttKeepAliveInterval'' val =
     assign_stoi val (\<lambda>n. this\<lparr>mqttKeepAliveInterval := n\<rparr>)"
  "interpretParam this ''MqttRetryInterval'' val =
     assign_stoi val (\<lambda>n. this\<lparr>mqttRetryInterval := n\<rparr>)"
  "interpretParam this ''MqttConnectionTimeout'' val =
     assign_stoi val (\<lambda>n. this\<lparr>mqttConnectionTimeout := n\<rparr>)"
  "interpretParam this ''MqttSslEnableServerCertAuth'' val =
     assign_stoi val (\<lambda>n. this\<lparr>mqttSslEnableServerCertAuth := n\<rparr>)"
  "interpretParam this ''MqttSslVerify'' val = assign_stoi val (\<lambda>n. this\<lparr>mqttSslVerify := n\<rparr>)"
  by (simp_all add: interpretParam_def)

lemma interpretParam_numeric:
  assumes "key \<in> set numeric_keys" and "stoi val = Inl e"
  shows "interpretParam this key val = ([], Inl e)"
  using assms by (auto simp: numeric_keys_def interpretParam_stoi assign_stoi_cases)

lemma parseConfLine_numeric:
  assumes "trim (trimComment line) [CHR '' '', CHR 0x09] = key @ CHR '' '' # val"
    and "key \<in> set numeric_keys" and "stoi val = Inl e"
  shows "parseConfLine this lineNum line = ([], Inl e)"
  using assms(1) find_chr_append [OF numeric_keys_no_space [OF assms(2)], of val]
    interpretParam_numeric [OF assms(2,3), of this]
  by (simp add: parseConfLine_def Let_def substr_def)

lemma parseConfLines_append:
  "parseConfLines this lineNum before = (out, Inr this') \<Longrightarrow>
   parseConfLines this lineNum (before @ rest) =
     (out @ fst (parseConfLines this' (lineNum + int (length before)) rest),
      snd (parseConfLines this' (lineNum + int (length before)) rest))"
proof (induction before arbitrary: this lineNum out)
  case Nil
  then show ?case by simp
next
  case (Cons line before)
  from Cons.prems obtain o1 this1 o2 where
    l: "parseConfLine this (lineNum + 1) line = (o1, Inr this1)"
    and r: "parseConfLines this1 (lineNum + 1) before = (o2, Inr this')"
    and o: "out = o1 @ o2"
    by (auto split: prod.splits sum.splits)
  from Cons.IH [OF r] l o show ?case
    by (simp add: add.assoc split: prod.splits)
qed

section \<open>The claims\<close>

text \<open>
  C1, as the code has it. The claim as stated fails on the topic: the file below passes
  \<open>parseConfFile\<close> with a topic that has a NUL byte in it, and the run publishes the
  datagram on the part of the topic before that byte, which is what \<^verbatim>\<open>c_str()\<close> hands
  to the library, not on the configured topic.
\<close>

theorem nul_in_topic_cuts_topic:
  "snd (parseConfFile (files (example_env conf_nul_topic [example_input]))
        (AppOptions_defaults ''udpmqttgw''))
     = Inr (True, example_options\<lparr>mqttTopic := nul_topic\<rparr>) \<and>
   map fst (published (fst (main (example_env conf_nul_topic [example_input])))) = [''sens''] \<and>
   ''sens'' \<noteq> nul_topic"
  by code_simp

text \<open>
  C1, amended. When the configured topic has no NUL byte: whatever the buffer held before
  and whatever the other passes received, pass \<open>i\<close> of the forward loop, when it receives
  a datagram of at most \<open>UDP_BUFFER_SIZE\<close> bytes, makes the \<open>i\<close>-th publish call of the
  run, and there are exactly as many publish calls as passes: one per datagram. That call
  names the configured topic, its payload bytes are the bytes of the datagram, its QoS is
  the configured \<open>mqttQosLevel\<close> and its retained flag is \<open>0\<close>.
\<close>

theorem forward_loop_publishes_datagram:
  assumes "i < length inputs"
    and "recvfrom_result (inputs ! i) = Some datagram"
    and "length datagram \<le> UDP_BUFFER_SIZE"
    and "CHR 0x00 \<notin> set (mqttTopic options)"
  shows "length (published (snd (main_loop options msgBuffer inputs))) = length inputs \<and>
         fst (published (snd (main_loop options msgBuffer inputs)) ! i) = mqttTopic options \<and>
         payload_bytes (snd (published (snd (main_loop options msgBuffer inputs)) ! i)) = datagram \<and>
         qos (snd (published (snd (main_loop options msgBuffer inputs)) ! i)) = mqttQosLevel options \<and>
         retained (snd (published (snd (main_loop options msgBuffer inputs)) ! i)) = 0"
  using assms(2,3)
  by (simp add: length_published_loop nth_published_loop [OF assms(1)] payload_bytes_def
      recvfrom_payload c_str_no_nul [OF assms(4)])

theorem forward_loop_publishes_datagram_witness:
  "1 < length [failing_receive, example_input] \<and>
   recvfrom_result ([failing_receive, example_input] ! 1) = Some example_datagram \<and>
   length example_datagram \<le> UDP_BUFFER_SIZE \<and>
   CHR 0x00 \<notin> set (mqttTopic example_options) \<and>
   length (published (snd (main_loop example_options (replicate 2048 (CHR 0x00))
      [failing_receive, example_input]))) = 2 \<and>
   fst (published (snd (main_loop example_options (replicate 2048 (CHR 0x00))
      [failing_receive, example_input])) ! 1) = ''sensors/1'' \<and>
   payload_bytes (snd (published (snd (main_loop example_options (replicate 2048 (CHR 0x00))
      [failing_receive, example_input])) ! 1)) = [CHR 0x01, CHR 0x02, CHR 0x03] \<and>
   qos (snd (published (snd (main_loop example_options (replicate 2048 (CHR 0x00))
      [failing_receive, example_input])) ! 1)) = 0 \<and>
   retained (snd (published (snd (main_loop example_options (replicate 2048 (CHR 0x00))
      [failing_receive, example_input])) ! 1)) = 0"
proof -
  have h1: "1 < length [failing_receive, example_input]"
    by simp
  have h2: "recvfrom_result ([failing_receive, example_input] ! 1) = Some example_datagram"
    by (simp add: example_input_def)
  have h3: "length example_datagram \<le> UDP_BUFFER_SIZE"
    by (simp add: example_datagram_def UDP_BUFFER_SIZE_def)
  have h4: "CHR 0x00 \<notin> set (mqttTopic example_options)"
    by (simp add: example_options_def)
  have t: "mqttTopic example_options = ''sensors/1''"
    by (simp add: example_options_def)
  have q: "mqttQosLevel example_options = 0"
    by (simp add: example_options_def AppOptions_defaults_def MQTT_QOS_def)
  from forward_loop_publishes_datagram [OF h1 h2 h3 h4, of "replicate 2048 (CHR 0x00)"]
  have "length (published (snd (main_loop example_options (replicate 2048 (CHR 0x00))
          [failing_receive, example_input]))) = length [failing_receive, example_input]"
    and "fst (published (snd (main_loop example_options (replicate 2048 (CHR 0x00))
          [failing_receive, example_input])) ! 1) = mqttTopic example_options"
    and "payload_bytes (snd (published (snd (main_loop example_options (replicate 2048 (CHR 0x00))
          [failing_receive, example_input])) ! 1)) = example_datagram"
    and "qos (snd (published (snd (main_loop example_options (replicate 2048 (CHR 0x00))
          [failing_receive, example_input])) ! 1)) = mqttQosLevel example_options"
    and "retained (snd (published (snd (main_loop example_options (replicate 2048 (CHR 0x00))
          [failing_receive, example_input])) ! 1)) = 0"
    by blast+
  with h1 h2 h3 h4 t q show ?thesis
    by (simp add: example_datagram_def)
qed

text \<open>
  C2. In a run that reached the forward loop, a pass whose
  \<^verbatim>\<open>MQTTClient_waitForCompletion\<close> returns a failure code writes the error line and nothing
  else happens: the process has not exited and is waiting in \<^verbatim>\<open>recvfrom\<close> after the last
  pass, every pass of the run (those after the failure included) has received and has
  published, and what was received and published is what it would have been had the
  failed call succeeded. In particular every pass after the failed one that gets a
  datagram still receives it (\<^verbatim>\<open>recvfrom\<close> returns its length, at most
  \<open>UDP_BUFFER_SIZE\<close>) and forwards it: the publish call of that pass carries the bytes of
  that datagram (its first \<open>UDP_BUFFER_SIZE\<close> bytes), the topic as the library reads it
  (up to the first NUL byte), the configured QoS and the retained flag \<open>0\<close>.
\<close>

theorem publish_failure_does_not_stop_loop:
  assumes "0 \<le> socket_ret env" and "0 \<le> bind_ret env" and "connect_ret env = MQTTCLIENT_SUCCESS"
    and "loop_inputs env = before @ x # after"
    and "wait_rc x \<noteq> MQTTCLIENT_SUCCESS"
  shows "snd (main_run env options) = Blocked_in_recvfrom \<and>
         Stdout (''[ERROR] Failed to publish MQTT message, error '' @ show_int (wait_rc x) @ nl)
           \<in> set (fst (main_run env options)) \<and>
         length (received (fst (main_run env options))) = length before + 1 + length after \<and>
         length (published (fst (main_run env options))) = length before + 1 + length after \<and>
         received (fst (main_run env options)) =
           received (fst (main_run
             (env\<lparr>loop_inputs := before @ x\<lparr>wait_rc := MQTTCLIENT_SUCCESS\<rparr> # after\<rparr>) options)) \<and>
         published (fst (main_run env options)) =
           published (fst (main_run
             (env\<lparr>loop_inputs := before @ x\<lparr>wait_rc := MQTTCLIENT_SUCCESS\<rparr> # after\<rparr>) options)) \<and>
         (\<forall>j datagram.
            j < length after \<and> recvfrom_result (after ! j) = Some datagram \<longrightarrow>
            received (fst (main_run env options)) ! (length before + 1 + j)
              = int (min (length datagram) UDP_BUFFER_SIZE) \<and>
            fst (published (fst (main_run env options)) ! (length before + 1 + j))
              = takeWhile (\<lambda>c. c \<noteq> CHR 0x00) (mqttTopic options) \<and>
            payload_bytes (snd (published (fst (main_run env options)) ! (length before + 1 + j)))
              = take UDP_BUFFER_SIZE datagram \<and>
            qos (snd (published (fst (main_run env options)) ! (length before + 1 + j)))
              = mqttQosLevel options \<and>
            retained (snd (published (fst (main_run env options)) ! (length before + 1 + j))) = 0)"
proof -
  let ?env' = "env\<lparr>loop_inputs := before @ x\<lparr>wait_rc := MQTTCLIENT_SUCCESS\<rparr> # after\<rparr>"
  let ?inputs = "before @ x # after"
  have s': "0 \<le> socket_ret ?env'" "0 \<le> bind_ret ?env'" "connect_ret ?env' = MQTTCLIENT_SUCCESS"
    using assms(1-3) by simp_all
  have "Stdout (''[ERROR] Failed to publish MQTT message, error '' @ show_int (wait_rc x) @ nl)
          \<in> set (snd (main_loop options (msgBuffer_init env) (before @ x # after)))"
    using error_line_iteration [OF assms(5)]
    by (simp add: main_loop_append main_loop_Cons del: main_loop.simps(2))
  then have err:
    "Stdout (''[ERROR] Failed to publish MQTT message, error '' @ show_int (wait_rc x) @ nl)
       \<in> set (fst (main_run env options))"
    using main_run_started(4) [OF assms(1-3), of options] assms(4) by auto
  have first: "snd (main_run env options) = Blocked_in_recvfrom \<and>
         Stdout (''[ERROR] Failed to publish MQTT message, error '' @ show_int (wait_rc x) @ nl)
           \<in> set (fst (main_run env options)) \<and>
         length (received (fst (main_run env options))) = length before + 1 + length after \<and>
         length (published (fst (main_run env options))) = length before + 1 + length after \<and>
         received (fst (main_run env options)) = received (fst (main_run ?env' options)) \<and>
         published (fst (main_run env options)) = published (fst (main_run ?env' options))"
    using err assms(4)
    by (simp add: main_run_started(1-3) [OF assms(1-3)] main_run_started(2,3) [OF s']
        length_received_loop length_published_loop received_loop published_loop)
  have later: "received (fst (main_run env options)) ! (length before + 1 + j)
              = int (min (length datagram) UDP_BUFFER_SIZE) \<and>
            fst (published (fst (main_run env options)) ! (length before + 1 + j))
              = takeWhile (\<lambda>c. c \<noteq> CHR 0x00) (mqttTopic options) \<and>
            payload_bytes (snd (published (fst (main_run env options)) ! (length before + 1 + j)))
              = take UDP_BUFFER_SIZE datagram \<and>
            qos (snd (published (fst (main_run env options)) ! (length before + 1 + j)))
              = mqttQosLevel options \<and>
            retained (snd (published (fst (main_run env options)) ! (length before + 1 + j))) = 0"
    if j: "j < length after" and d: "recvfrom_result (after ! j) = Some datagram"
    for j datagram
  proof -
    from j have k: "length before + 1 + j < length ?inputs" by simp
    have n: "?inputs ! (length before + 1 + j) = after ! j"
      by (simp add: nth_append)
    from nth_received_loop [OF k, of options "msgBuffer_init env"]
      nth_published_loop [OF k, of options "msgBuffer_init env"] n d
    show ?thesis
      by (simp add: main_run_started(2,3) [OF assms(1-3)] assms(4) payload_bytes_def
          recvfrom_Some_length recvfrom_Some_payload c_str_def)
  qed
  from first later show ?thesis by blast
qed

theorem publish_failure_does_not_stop_loop_witness:
  "wait_rc failing_publish \<noteq> MQTTCLIENT_SUCCESS \<and>
   recvfrom_result example_input = Some example_datagram \<and>
   snd (main_run (example_env [] [failing_publish, example_input]) example_options)
     = Blocked_in_recvfrom \<and>
   length (published (fst (main_run (example_env [] [failing_publish, example_input])
     example_options))) = 2 \<and>
   received (fst (main_run (example_env [] [failing_publish, example_input]) example_options)) ! 1
     = 3 \<and>
   fst (published (fst (main_run (example_env [] [failing_publish, example_input])
     example_options)) ! 1) = ''sensors/1'' \<and>
   payload_bytes (snd (published (fst (main_run (example_env [] [failing_publish, example_input])
     example_options)) ! 1)) = [CHR 0x01, CHR 0x02, CHR 0x03]"
proof -
  let ?env = "example_env [] [failing_publish, example_input]"
  have h1: "0 \<le> socket_ret ?env" and h2: "0 \<le> bind_ret ?env"
    and h3: "connect_ret ?env = MQTTCLIENT_SUCCESS"
    and h4: "loop_inputs ?env = [] @ failing_publish # [example_input]"
    by (simp_all add: example_env_def MQTTCLIENT_SUCCESS_def)
  have h5: "wait_rc failing_publish \<noteq> MQTTCLIENT_SUCCESS"
    by (simp add: failing_publish_def MQTTCLIENT_SUCCESS_def)
  have h6: "recvfrom_result example_input = Some example_datagram"
    by (simp add: example_input_def)
  note inst = publish_failure_does_not_stop_loop [OF h1 h2 h3 h4 h5, of example_options]
  from inst have a: "snd (main_run ?env example_options) = Blocked_in_recvfrom"
    and b: "length (published (fst (main_run ?env example_options)))
           = length ([] :: loop_input list) + 1 + length [example_input]"
    by blast+
  from inst have "\<forall>j datagram.
       j < length [example_input] \<and> recvfrom_result ([example_input] ! j) = Some datagram \<longrightarrow>
       received (fst (main_run ?env example_options)) ! (length ([] :: loop_input list) + 1 + j)
         = int (min (length datagram) UDP_BUFFER_SIZE) \<and>
       fst (published (fst (main_run ?env example_options)) ! (length ([] :: loop_input list) + 1 + j))
         = takeWhile (\<lambda>c. c \<noteq> CHR 0x00) (mqttTopic example_options) \<and>
       payload_bytes (snd (published (fst (main_run ?env example_options))
           ! (length ([] :: loop_input list) + 1 + j)))
         = take UDP_BUFFER_SIZE datagram \<and>
       qos (snd (published (fst (main_run ?env example_options))
           ! (length ([] :: loop_input list) + 1 + j))) = mqttQosLevel example_options \<and>
       retained (snd (published (fst (main_run ?env example_options))
           ! (length ([] :: loop_input list) + 1 + j))) = 0"
    by blast
  from this [rule_format, of 0 example_datagram] h6
  have c: "received (fst (main_run ?env example_options)) ! 1
         = int (min (length example_datagram) UDP_BUFFER_SIZE)"
    and d: "fst (published (fst (main_run ?env example_options)) ! 1)
         = takeWhile (\<lambda>c. c \<noteq> CHR 0x00) (mqttTopic example_options)"
    and e: "payload_bytes (snd (published (fst (main_run ?env example_options)) ! 1))
         = take UDP_BUFFER_SIZE example_datagram"
    by simp_all
  have "int (min (length example_datagram) UDP_BUFFER_SIZE) = 3"
    and "takeWhile (\<lambda>c. c \<noteq> CHR 0x00) (mqttTopic example_options) = ''sensors/1''"
    and "take UDP_BUFFER_SIZE example_datagram = [CHR 0x01, CHR 0x02, CHR 0x03]"
    by (simp_all add: example_datagram_def UDP_BUFFER_SIZE_def example_options_def)
  with a b c d e h5 h6 show ?thesis by simp
qed

text \<open>
  C3, as the code has it. The claim as stated fails: in the first file no line sets the
  URL and a later line has a port \<^verbatim>\<open>std::stoi\<close> cannot convert, in the second the
  \<^verbatim>\<open>MqttUrl\<close> line has no value. Both runs leave with \<open>EXIT_FAILURE\<close>, but the checks after
  the parsing loop are never reached: the first run reports only the general line, the
  second the syntax error of line 2, and neither writes the message that names the
  missing URL.
\<close>

theorem missing_field_not_named_when_parse_throws:
  "map_sum id mqttUrl
     (snd (parseConfLines (AppOptions_defaults ''udpmqttgw'') 0
        [''MqttTopic sensors/1'', ''MqttClientID gw''])) = Inr [] \<and>
   main (example_env conf_without_url_bad_port []) =
     ([Stdout (''UDP MQTT Gateway, Version v1.0'' @ nl),
       Stdout (''Using configuration file: /etc/udpmqttgw.conf'' @ nl @ nl),
       Stdout (''[INFO ] Exiting, because of an error parsing configuration'' @ nl)],
      Exit EXIT_FAILURE) \<and>
   main (example_env conf_url_without_value []) =
     ([Stdout (''UDP MQTT Gateway, Version v1.0'' @ nl),
       Stdout (''Using configuration file: /etc/udpmqttgw.conf'' @ nl @ nl),
       Stderr (''[ERROR] Invalid parameter in .conf file at line 2'' @ nl),
       Stdout (''[INFO ] Exiting, because of an error parsing configuration'' @ nl)],
      Exit EXIT_FAILURE) \<and>
   Stderr (''[ERROR] MqttUrl must be set in the configuration file'' @ nl)
     \<notin> set (fst (main (example_env conf_without_url_bad_port []))) \<and>
   Stderr (''[ERROR] MqttUrl must be set in the configuration file'' @ nl)
     \<notin> set (fst (main (example_env conf_url_without_value [])))"
  by code_simp

text \<open>
  C3, amended. In a run whose command line is accepted: when \<open>parseConfFile\<close> reads the
  file to the end without throwing and leaves the URL, the topic or the client ID empty,
  it returns \<open>false\<close>, the message written for each empty field names that field, \<open>main\<close>
  leaves with \<open>EXIT_FAILURE\<close>, and every event of the run is a write to a stream: there is
  no call of \<^verbatim>\<open>socket\<close> or \<^verbatim>\<open>bind\<close> and none of the MQTT library. When \<open>parseConfFile\<close>
  throws \<^verbatim>\<open>std::runtime_error\<close> or \<^verbatim>\<open>std::invalid_argument\<close> instead, \<open>main\<close> likewise
  leaves with \<open>EXIT_FAILURE\<close> and every event of the run is a write to a stream.
\<close>

theorem missing_required_field_rejected:
  assumes "AppOptions_ctor (argv0 env) (args env) = (out1, Inr options0)"
    and "parseConfFile (files env) options0 = (out3, r)"
  shows "(\<forall>returnValue options.
            r = Inr (returnValue, options) \<and>
            (mqttUrl options = [] \<or> mqttTopic options = [] \<or> mqttClientID options = []) \<longrightarrow>
            \<not> returnValue \<and>
            (mqttUrl options = [] \<longrightarrow>
               Stderr (''[ERROR] MqttUrl must be set in the configuration file'' @ nl)
                 \<in> set out3) \<and>
            (mqttTopic options = [] \<longrightarrow>
               Stderr (''[ERROR] MqttTopic must be set in the configuration file'' @ nl)
                 \<in> set out3) \<and>
            (mqttClientID options = [] \<longrightarrow>
               Stderr (''[ERROR] MqttClientID must be set in the configuration file'' @ nl)
                 \<in> set out3) \<and>
            snd (main env) = Exit EXIT_FAILURE \<and>
            filter is_socket_call (fst (main env)) = [] \<and>
            list_all is_output (fst (main env))) \<and>
         (\<forall>e. r = Inl e \<and> e \<noteq> Out_of_range \<longrightarrow>
            snd (main env) = Exit EXIT_FAILURE \<and> list_all is_output (fst (main env)))"
proof -
  from parseCliArgs_outputs [of "AppOptions_defaults (argv0 env)" "args env"] assms(1)
  have o1: "list_all is_output out1" by (simp add: AppOptions_ctor_def)
  from parseConfFile_outputs [of "files env" options0] assms(2)
  have o3: "list_all is_output out3" by simp
  have returned: "\<not> returnValue \<and>
            (mqttUrl options = [] \<longrightarrow>
               Stderr (''[ERROR] MqttUrl must be set in the configuration file'' @ nl)
                 \<in> set out3) \<and>
            (mqttTopic options = [] \<longrightarrow>
               Stderr (''[ERROR] MqttTopic must be set in the configuration file'' @ nl)
                 \<in> set out3) \<and>
            (mqttClientID options = [] \<longrightarrow>
               Stderr (''[ERROR] MqttClientID must be set in the configuration file'' @ nl)
                 \<in> set out3) \<and>
            snd (main env) = Exit EXIT_FAILURE \<and>
            filter is_socket_call (fst (main env)) = [] \<and>
            list_all is_output (fst (main env))"
    if r: "r = Inr (returnValue, options)"
      and empty: "mqttUrl options = [] \<or> mqttTopic options = [] \<or> mqttClientID options = []"
    for returnValue options
  proof -
    from assms(2) r have q: "parseConfFile (files env) options0 = (out3, Inr (returnValue, options))"
      by simp
    from parseConfFile_Inr [OF q] obtain out' where
      o: "out3 = out' @ fst (checkConfiguration options)"
      and v: "returnValue = snd (checkConfiguration options)"
      by blast
    from v checkConfiguration_required [OF empty] have f: "\<not> returnValue" by simp
    from o checkConfiguration_names_field [of options]
    have n: "(mqttUrl options = [] \<longrightarrow>
               Stderr (''[ERROR] MqttUrl must be set in the configuration file'' @ nl)
                 \<in> set out3) \<and>
            (mqttTopic options = [] \<longrightarrow>
               Stderr (''[ERROR] MqttTopic must be set in the configuration file'' @ nl)
                 \<in> set out3) \<and>
            (mqttClientID options = [] \<longrightarrow>
               Stderr (''[ERROR] MqttClientID must be set in the configuration file'' @ nl)
                 \<in> set out3)"
      by simp
    from q f have p: "parseConfFile (files env) options0 = (out3, Inr (False, options))"
      by simp
    note m = main_invalid_configuration [OF assms(1) p]
    from o1 o3 have a: "list_all is_output (fst (main env))"
      by (simp add: m)
    then have s: "filter is_socket_call (fst (main env)) = []"
      by (rule outputs_no_socket_call)
    from f n s a m show ?thesis by simp
  qed
  have thrown: "snd (main env) = Exit EXIT_FAILURE \<and> list_all is_output (fst (main env))"
    if r: "r = Inl e" and e: "e \<noteq> Out_of_range" for e
  proof (cases e)
    case (Runtime_error msg)
    with assms(2) r
    have "parseConfFile (files env) options0 = (out3, Inl (Runtime_error msg))" by simp
    from main_runtime_error [OF assms(1) this] o1 o3 show ?thesis by simp
  next
    case Invalid_argument
    with assms(2) r
    have "parseConfFile (files env) options0 = (out3, Inl Invalid_argument)" by simp
    from main_invalid_argument [OF assms(1) this] o1 o3 show ?thesis by simp
  next
    case Out_of_range
    with e show ?thesis by simp
  qed
  from returned thrown show ?thesis by blast
qed

theorem missing_required_field_rejected_witness:
  "mqttUrl ((AppOptions_defaults ''udpmqttgw'')
     \<lparr>inputUdpPort := 9999, mqttTopic := ''sensors/1'', mqttClientID := ''gw''\<rparr>) = [] \<and>
   parseConfFile (files (example_env conf_without_url [])) (AppOptions_defaults ''udpmqttgw'') =
     ([Stderr (''[ERROR] MqttUrl must be set in the configuration file'' @ nl)],
      Inr (False, (AppOptions_defaults ''udpmqttgw'')
        \<lparr>inputUdpPort := 9999, mqttTopic := ''sensors/1'', mqttClientID := ''gw''\<rparr>)) \<and>
   snd (main (example_env conf_without_url [])) = Exit EXIT_FAILURE \<and>
   filter is_socket_call (fst (main (example_env conf_without_url []))) = [] \<and>
   list_all is_output (fst (main (example_env conf_without_url []))) \<and>
   parseConfFile (files (example_env conf_without_url_bad_port []))
     (AppOptions_defaults ''udpmqttgw'') = ([], Inl Invalid_argument) \<and>
   snd (main (example_env conf_without_url_bad_port [])) = Exit EXIT_FAILURE \<and>
   list_all is_output (fst (main (example_env conf_without_url_bad_port [])))"
proof -
  let ?env = "example_env conf_without_url []"
  let ?env' = "example_env conf_without_url_bad_port []"
  let ?options = "(AppOptions_defaults ''udpmqttgw'')
     \<lparr>inputUdpPort := 9999, mqttTopic := ''sensors/1'', mqttClientID := ''gw''\<rparr>"
  have c: "AppOptions_ctor (argv0 ?env) (args ?env) = ([], Inr (AppOptions_defaults ''udpmqttgw''))"
    and c': "AppOptions_ctor (argv0 ?env') (args ?env') = ([], Inr (AppOptions_defaults ''udpmqttgw''))"
    by (simp_all add: example_env_def AppOptions_ctor_def)
  have e: "parseConfFile (files ?env) (AppOptions_defaults ''udpmqttgw'') =
     ([Stderr (''[ERROR] MqttUrl must be set in the configuration file'' @ nl)],
      Inr (False, ?options))"
    by code_simp
  have e': "parseConfFile (files ?env') (AppOptions_defaults ''udpmqttgw'') = ([], Inl Invalid_argument)"
    by code_simp
  have u: "mqttUrl ?options = []"
    by (simp add: AppOptions_defaults_def)
  from missing_required_field_rejected [OF c e] u
  have a: "snd (main ?env) = Exit EXIT_FAILURE \<and> filter is_socket_call (fst (main ?env)) = [] \<and>
      list_all is_output (fst (main ?env))"
    by blast
  from missing_required_field_rejected [OF c' e']
  have b: "snd (main ?env') = Exit EXIT_FAILURE \<and> list_all is_output (fst (main ?env'))"
    by blast
  from a b e e' u show ?thesis by simp
qed

text \<open>
  C4, as the code has it. The claim as stated fails: both files give a user name and no
  password (the fields after the first four lines show it), but in the first a later
  number cannot be converted and in the second the \<^verbatim>\<open>MqttPassword\<close> line has no value, so
  \<open>parseConfFile\<close> throws before it reaches its checks: a bare
  \<^verbatim>\<open>std::invalid_argument\<close> and the syntax error of line 5, and the runs never write
  that the password must be set.
\<close>

theorem credentials_not_checked_when_parse_throws:
  "map_sum id (\<lambda>this. (mqttUsername this, mqttPassword this))
     (snd (parseConfLines (AppOptions_defaults ''udpmqttgw'') 0
        [''MqttUrl tcp://localhost:1883'', ''MqttTopic sensors/1'', ''MqttClientID gw'',
         ''MqttUsername bob''])) = Inr (''bob'', []) \<and>
   parseConfFile (files (example_env conf_username_bad_qos [])) (AppOptions_defaults ''udpmqttgw'')
     = ([], Inl Invalid_argument) \<and>
   parseConfFile (files (example_env conf_username_password_without_value []))
     (AppOptions_defaults ''udpmqttgw'')
     = ([Stderr (''[ERROR] Invalid parameter in .conf file at line 5'' @ nl)],
        Inl (Runtime_error ''Config file: Invalid synatx'')) \<and>
   Stderr (''[ERROR] MqttPassword must be set when a username is given'' @ nl)
     \<notin> set (fst (main (example_env conf_username_bad_qos []))) \<and>
   Stderr (''[ERROR] MqttPassword must be set when a username is given'' @ nl)
     \<notin> set (fst (main (example_env conf_username_password_without_value [])))"
  by code_simp

text \<open>
  C4, amended. Whenever \<open>parseConfFile\<close> reads the file to the end without throwing and
  the fields it leaves have a user name and no password, it returns \<open>false\<close> and has
  written the message that the password must be set when a user name is given.
\<close>

theorem username_without_password_rejected:
  assumes "parseConfFile fs this = (out, Inr (returnValue, this'))"
    and "mqttUsername this' \<noteq> []" and "mqttPassword this' = []"
  shows "\<not> returnValue \<and>
         Stderr (''[ERROR] MqttPassword must be set when a username is given'' @ nl) \<in> set out"
  using parseConfFile_Inr [OF assms(1)] checkConfiguration_credentials [OF assms(2,3)]
  by auto

theorem username_without_password_rejected_witness:
  "mqttUsername ((AppOptions_defaults ''gw'')\<lparr>mqttUsername := ''bob''\<rparr>) \<noteq> [] \<and>
   mqttPassword ((AppOptions_defaults ''gw'')\<lparr>mqttUsername := ''bob''\<rparr>) = [] \<and>
   (\<exists>out returnValue.
      parseConfFile (\<lambda>path. Some ''MqttUsername bob'') (AppOptions_defaults ''gw'') =
        (out, Inr (returnValue, (AppOptions_defaults ''gw'')\<lparr>mqttUsername := ''bob''\<rparr>)) \<and>
      \<not> returnValue \<and>
      Stderr (''[ERROR] MqttPassword must be set when a username is given'' @ nl) \<in> set out)"
proof -
  let ?this' = "(AppOptions_defaults ''gw'')\<lparr>mqttUsername := ''bob''\<rparr>"
  have e: "parseConfFile (\<lambda>path. Some ''MqttUsername bob'') (AppOptions_defaults ''gw'') =
    ([Stderr (''[ERROR] MqttUrl must be set in the configuration file'' @ nl),
      Stderr (''[ERROR] MqttTopic must be set in the configuration file'' @ nl),
      Stderr (''[ERROR] MqttClientID must be set in the configuration file'' @ nl),
      Stderr (''[ERROR] MqttPassword must be set when a username is given'' @ nl)],
     Inr (False, ?this'))"
    by code_simp
  have u: "mqttUsername ?this' \<noteq> []" by simp
  have p: "mqttPassword ?this' = []" by (simp add: AppOptions_defaults_def)
  from username_without_password_rejected [OF e u p] e u p show ?thesis by blast
qed

text \<open>
  C5, as the code has it. The claim as stated fails: the two files below differ in the
  offending key and in its line, and \<open>parseConfFile\<close> answers both with the same bare
  \<^verbatim>\<open>std::invalid_argument\<close> and writes nothing, and the two runs of \<open>main\<close> are equal, so
  nothing a run produces identifies the key or the line.
\<close>

theorem malformed_number_not_identified:
  "parseConfFile (files (example_env conf_bad_port [])) (AppOptions_defaults ''udpmqttgw'')
     = ([], Inl Invalid_argument) \<and>
   parseConfFile (files (example_env conf_bad_qos [])) (AppOptions_defaults ''udpmqttgw'')
     = ([], Inl Invalid_argument) \<and>
   main (example_env conf_bad_port []) = main (example_env conf_bad_qos []) \<and>
   \<not> (\<exists>identify.
        identify (main (example_env conf_bad_port [])) = (''InputUdpPort'', 1 :: int) \<and>
        identify (main (example_env conf_bad_qos [])) = (''MqttQosLevel'', 2 :: int))"
proof -
  have a: "parseConfFile (files (example_env conf_bad_port [])) (AppOptions_defaults ''udpmqttgw'')
     = ([], Inl Invalid_argument)"
    by code_simp
  have b: "parseConfFile (files (example_env conf_bad_qos [])) (AppOptions_defaults ''udpmqttgw'')
     = ([], Inl Invalid_argument)"
    by code_simp
  have c: "AppOptions_ctor (argv0 (example_env conf_bad_port [])) (args (example_env conf_bad_port []))
       = ([], Inr (AppOptions_defaults ''udpmqttgw''))"
    "AppOptions_ctor (argv0 (example_env conf_bad_qos [])) (args (example_env conf_bad_qos []))
       = ([], Inr (AppOptions_defaults ''udpmqttgw''))"
    by (simp_all add: example_env_def AppOptions_ctor_def)
  have m: "main (example_env conf_bad_port []) = main (example_env conf_bad_qos [])"
    by (simp add: main_invalid_argument [OF c(1) a] main_invalid_argument [OF c(2) b])
       (simp add: example_env_def)
  have "\<not> (\<exists>identify.
        identify (main (example_env conf_bad_port [])) = (''InputUdpPort'', 1 :: int) \<and>
        identify (main (example_env conf_bad_qos [])) = (''MqttQosLevel'', 2 :: int))"
    by (simp add: m)
  with a b m show ?thesis by simp
qed

text \<open>
  C5, amended. In a run whose command line is accepted and whose configuration file can be
  opened: when every line before it was read without an exception and a line, trimmed, is
  one of the seven numeric keys, a space and a value that \<^verbatim>\<open>std::stoi\<close> rejects with
  \<^verbatim>\<open>std::invalid_argument\<close>, then \<open>parseConfFile\<close> throws \<^verbatim>\<open>std::invalid_argument\<close>
  having written only what the earlier lines wrote, and \<open>main\<close> adds the one general line
  and leaves with \<open>EXIT_FAILURE\<close>: neither the key nor the line number is reported.
\<close>

theorem malformed_number_throws_invalid_argument:
  assumes "AppOptions_ctor (argv0 env) (args env) = (out1, Inr options0)"
    and "files env (confPath options0) = Some contents"
    and "getlines [] contents = before @ line # after"
    and "parseConfLines options0 0 before = (out, Inr this')"
    and "trim (trimComment line) [CHR '' '', CHR 0x09] = key @ CHR '' '' # val"
    and "key \<in> set numeric_keys"
    and "stoi val = Inl Invalid_argument"
  shows "parseConfFile (files env) options0 = (out, Inl Invalid_argument) \<and>
         main env =
           ([Stdout (''UDP MQTT Gateway, Version '' @ GIT_VERSION_TAG env @ nl)] @ out1 @
            [Stdout (''Using configuration file: '' @ confPath options0 @ nl @ nl)] @ out @
            [Stdout (''[INFO ] Exiting, because of an error parsing configuration'' @ nl)],
            Exit EXIT_FAILURE)"
proof -
  have "parseConfLines this' (0 + int (length before)) (line # after) = ([], Inl Invalid_argument)"
    by (simp add: parseConfLine_numeric [OF assms(5-7)])
  with parseConfLines_append [OF assms(4), of "line # after"]
  have "parseConfLines options0 0 (before @ line # after) = (out, Inl Invalid_argument)"
    by simp
  with assms(2,3) have p: "parseConfFile (files env) options0 = (out, Inl Invalid_argument)"
    by (simp add: parseConfFile_def)
  from p main_invalid_argument [OF assms(1) p] show ?thesis by simp
qed

theorem malformed_number_throws_invalid_argument_witness:
  "''MqttQosLevel'' \<in> set numeric_keys \<and>
   stoi ''high'' = Inl Invalid_argument \<and>
   parseConfFile (files (example_env conf_bad_qos [])) (AppOptions_defaults ''udpmqttgw'')
     = ([], Inl Invalid_argument) \<and>
   main (example_env conf_bad_qos []) =
     ([Stdout (''UDP MQTT Gateway, Version v1.0'' @ nl),
       Stdout (''Using configuration file: /etc/udpmqttgw.conf'' @ nl @ nl),
       Stdout (''[INFO ] Exiting, because of an error parsing configuration'' @ nl)],
      Exit EXIT_FAILURE)"
proof -
  let ?env = "example_env conf_bad_qos []"
  let ?options0 = "AppOptions_defaults ''udpmqttgw''"
  have h1: "AppOptions_ctor (argv0 ?env) (args ?env) = ([], Inr ?options0)"
    by (simp add: example_env_def AppOptions_ctor_def)
  have h2: "files ?env (confPath ?options0) = Some conf_bad_qos"
    by (simp add: example_env_def AppOptions_defaults_def)
  have h3: "getlines [] conf_bad_qos =
      [''MqttUrl tcp://localhost:1883''] @ ''MqttQosLevel high'' # []"
    by code_simp
  have h4: "parseConfLines ?options0 0 [''MqttUrl tcp://localhost:1883''] =
      ([], Inr (?options0\<lparr>mqttUrl := ''tcp://localhost:1883''\<rparr>))"
    by code_simp
  have h5: "trim (trimComment ''MqttQosLevel high'') [CHR '' '', CHR 0x09] =
      ''MqttQosLevel'' @ CHR '' '' # ''high''"
    by code_simp
  have h6: "''MqttQosLevel'' \<in> set numeric_keys"
    by (simp add: numeric_keys_def)
  have h7: "stoi ''high'' = Inl Invalid_argument"
    by code_simp
  from malformed_number_throws_invalid_argument [OF h1 h2 h3 h4 h5 h6 h7] h6 h7
  show ?thesis
    by (simp add: example_env_def AppOptions_defaults_def CONF_FILE_def)
qed

text \<open>
  C6, as the code has it. The claim as stated fails: a file with \<^verbatim>\<open>MqttQosLevel 7\<close> passes
  \<open>parseConfFile\<close>, the run reaches the forward loop and publishes with QoS \<open>7\<close>.
\<close>

theorem qos_outside_0_1_2_reaches_forward_loop:
  "snd (parseConfFile (files (example_env conf_qos_7 [example_input]))
        (AppOptions_defaults ''udpmqttgw''))
     = Inr (True, example_options\<lparr>mqttQosLevel := 7\<rparr>) \<and>
   map (\<lambda>(topic, msg). qos msg) (published (fst (main (example_env conf_qos_7 [example_input]))))
     = [7] \<and>
   snd (main (example_env conf_qos_7 [example_input])) = Blocked_in_recvfrom \<and>
   (7 :: int) \<notin> {0, 1, 2}"
  by code_simp

text \<open>
  C6, amended. The QoS field of options that came through the constructor and
  \<open>parseConfFile\<close> is within the range of an \<^verbatim>\<open>int\<close>, which is all \<^verbatim>\<open>std::stoi\<close> ensures,
  and every message the run publishes carries exactly that field as its QoS.
\<close>

theorem validated_qos_is_any_int:
  assumes "AppOptions_ctor name cliArgs = (out1, Inr options0)"
    and "parseConfFile fs options0 = (out3, Inr (returnValue, options))"
  shows "fits_int (mqttQosLevel options) \<and>
         list_all (\<lambda>(topic, msg). qos msg = mqttQosLevel options)
           (published (fst (main_run env options)))"
proof -
  from parseCliArgs_qos [of "AppOptions_defaults name" cliArgs out1 options0] assms(1)
  have "mqttQosLevel options0 = MQTT_QOS"
    by (simp add: AppOptions_ctor_def AppOptions_defaults_def)
  then have "fits_int (mqttQosLevel options0)"
    by (simp add: MQTT_QOS_def fits_int_def INT_MIN_def INT_MAX_def)
  moreover from parseConfFile_Inr [OF assms(2)] obtain out' where
    "parseConfLines options0 0 (getlines [] (the (fs (confPath options0)))) = (out', Inr options)"
    by blast
  ultimately have f: "fits_int (mqttQosLevel options)"
    by (rule parseConfLines_qos [rotated])
  from published_main_run [of env options]
    qos_published_loop [of options "msgBuffer_init env" "loop_inputs env"]
  have "list_all (\<lambda>(topic, msg). qos msg = mqttQosLevel options)
          (published (fst (main_run env options)))"
    by auto
  with f show ?thesis by simp
qed

theorem validated_qos_is_any_int_witness:
  "parseConfFile (files (example_env conf_qos_7 [example_input])) (AppOptions_defaults ''udpmqttgw'')
     = ([], Inr (True, example_options\<lparr>mqttQosLevel := 7\<rparr>)) \<and>
   fits_int (mqttQosLevel (example_options\<lparr>mqttQosLevel := 7\<rparr>)) \<and>
   list_all (\<lambda>(topic, msg). qos msg = 7)
     (published (fst (main_run (example_env conf_qos_7 [example_input])
        (example_options\<lparr>mqttQosLevel := 7\<rparr>))))"
proof -
  have c: "AppOptions_ctor ''udpmqttgw'' [] = ([], Inr (AppOptions_defaults ''udpmqttgw''))"
    by (simp add: AppOptions_ctor_def)
  have e: "parseConfFile (files (example_env conf_qos_7 [example_input]))
      (AppOptions_defaults ''udpmqttgw'') = ([], Inr (True, example_options\<lparr>mqttQosLevel := 7\<rparr>))"
    by code_simp
  from validated_qos_is_any_int [OF c e, of "example_env conf_qos_7 [example_input]"] e
  show ?thesis by simp
qed

text \<open>
  C7. The code at the failing input: a file with the three checked fields and no
  \<^verbatim>\<open>InputUdpPort\<close> line passes \<open>parseConfFile\<close> with the port left at \<open>0\<close>, and the run
  creates the socket, binds it to port \<open>0\<close> and goes on into the forward loop.
\<close>

theorem missing_port_is_bound_to_port_0:
  "snd (parseConfFile (files (example_env conf_without_port [])) (AppOptions_defaults ''udpmqttgw''))
     = Inr (True, example_options\<lparr>inputUdpPort := 0\<rparr>) \<and>
   filter is_socket_call (fst (main (example_env conf_without_port [])))
     = [Call_socket 3, Call_bind 0 0] \<and>
   snd (main (example_env conf_without_port [])) = Blocked_in_recvfrom"
  by code_simp

text \<open>
  C8. The value of a \<^verbatim>\<open>MqttSslVersion\<close> line: \<^verbatim>\<open>default\<close> selects
  \<open>MQTT_SSL_VERSION_DEFAULT\<close>; \<^verbatim>\<open>1.0\<close>, \<^verbatim>\<open>1.1\<close> and \<^verbatim>\<open>1.2\<close> all three select
  \<open>MQTT_SSL_VERSION_TLS_1_0\<close>; every other value is reported and throws the
  \<^verbatim>\<open>runtime_error\<close>.
\<close>

theorem sslVersion_mapping:
  "interpretParam this ''MqttSslVersion'' val =
     (if val = ''default'' then
        ([], Inr (this\<lparr>mqttSslVersion_str := val, mqttSslVersion := MQTT_SSL_VERSION_DEFAULT\<rparr>))
      else if val = ''1.0'' \<or> val = ''1.1'' \<or> val = ''1.2'' then
        ([], Inr (this\<lparr>mqttSslVersion_str := val, mqttSslVersion := MQTT_SSL_VERSION_TLS_1_0\<rparr>))
      else
        ([Stderr (''[ERROR] Invalid value for MqttSslVersion'' @ nl)],
         Inl (Runtime_error ''Config file: Invalid synatx'')))"
  by (simp add: interpretParam_def eq_commute [of "''default''"] eq_commute [of "''1.0''"]
      eq_commute [of "''1.1''"] eq_commute [of "''1.2''"])

theorem sslVersion_mapping_witness:
  "map_sum id mqttSslVersion (snd (interpretParam example_options ''MqttSslVersion'' ''1.2''))
     = Inr MQTT_SSL_VERSION_TLS_1_0 \<and>
   map_sum id mqttSslVersion (snd (interpretParam example_options ''MqttSslVersion'' ''1.3''))
     = Inl (Runtime_error ''Config file: Invalid synatx'')"
  using sslVersion_mapping [of example_options "''1.2''"]
    sslVersion_mapping [of example_options "''1.3''"]
  by simp

text \<open>
  C9. A pass whose \<^verbatim>\<open>recvfrom\<close> fails: the buffer is left as it was, the \<open>-1\<close> goes
  unchecked into \<open>payloadlen\<close> of the one message the pass publishes, and the pass writes
  exactly what a pass with a successful receive writes, so nothing reports the failure.
\<close>

theorem receive_error_is_published:
  assumes "recvfrom_result inp = None"
  shows "fst (loop_iteration options msgBuffer inp) = msgBuffer \<and>
         received (snd (loop_iteration options msgBuffer inp)) = [- 1] \<and>
         published (snd (loop_iteration options msgBuffer inp)) =
           [(c_str (mqttTopic options),
             \<lparr> payload = msgBuffer, payloadlen = - 1,
               qos = mqttQosLevel options, retained = 0 \<rparr>)] \<and>
         filter is_output (snd (loop_iteration options msgBuffer inp)) =
           filter is_output (snd (loop_iteration options msgBuffer
             (inp\<lparr>recvfrom_result := Some datagram\<rparr>)))"
  using assms
  by (simp add: fst_iteration received_iteration published_iteration recvfrom_def
      loop_iteration_def Let_def)

theorem receive_error_is_published_witness:
  "recvfrom_result failing_receive = None \<and>
   map (\<lambda>(topic, msg). payloadlen msg)
     (published (snd (loop_iteration example_options ''previous'' failing_receive))) = [- 1] \<and>
   filter is_output (snd (loop_iteration example_options ''previous'' failing_receive)) = []"
proof -
  have h: "recvfrom_result failing_receive = None"
    by (simp add: failing_receive_def)
  have "filter is_output (snd (loop_iteration example_options ''previous''
          (failing_receive\<lparr>recvfrom_result := Some example_datagram\<rparr>))) = []"
    by (simp add: loop_iteration_def Let_def failing_receive_def example_options_def
        recvfrom_def AppOptions_defaults_def MQTTCLIENT_SUCCESS_def)
  with receive_error_is_published [OF h, of example_options "''previous''" example_datagram] h
  show ?thesis by simp
qed

text \<open>
  C10. Options that come out of \<open>parseConfFile\<close> with the three required fields set and
  no user name pass the checks without a message, whatever the password field holds, and
  the connect options built from them carry neither a user name nor a password: every
  \<^verbatim>\<open>MQTTClient_connect\<close> call of the run is made with both pointers \<^verbatim>\<open>NULL\<close>.
\<close>

theorem password_without_username_ignored:
  assumes "parseConfFile fs this = (out, Inr (returnValue, options))"
    and "mqttUrl options \<noteq> []" and "mqttTopic options \<noteq> []" and "mqttClientID options \<noteq> []"
    and "mqttUsername options = []"
  shows "returnValue \<and> checkConfiguration options = ([], True) \<and>
         username (mqttConnOpts_of options) = None \<and>
         password (mqttConnOpts_of options) = None \<and>
         list_all (\<lambda>opts. username opts = None \<and> password opts = None)
           (connect_calls (fst (main_run env options)))"
proof -
  have c: "checkConfiguration options = ([], True)"
    by (rule checkConfiguration_no_username [OF assms(2-5)])
  with parseConfFile_Inr [OF assms(1)] have r: returnValue by auto
  have n: "username (mqttConnOpts_of options) = None \<and> password (mqttConnOpts_of options) = None"
    using assms(5) by (simp add: mqttConnOpts_of_def)
  with connect_calls_main_run [of env options]
  have "list_all (\<lambda>opts. username opts = None \<and> password opts = None)
          (connect_calls (fst (main_run env options)))"
    by auto
  with c r n show ?thesis by simp
qed

theorem password_without_username_ignored_witness:
  "mqttPassword (example_options\<lparr>mqttPassword := ''secret''\<rparr>) \<noteq> [] \<and>
   mqttUsername (example_options\<lparr>mqttPassword := ''secret''\<rparr>) = [] \<and>
   parseConfFile
     (\<lambda>path. Some (file_of_lines [''InputUdpPort 9999'', ''MqttUrl tcp://localhost:1883'',
        ''MqttTopic sensors/1'', ''MqttClientID gw'', ''MqttPassword secret'']))
     (AppOptions_defaults ''udpmqttgw'')
     = ([], Inr (True, example_options\<lparr>mqttPassword := ''secret''\<rparr>)) \<and>
   password (mqttConnOpts_of (example_options\<lparr>mqttPassword := ''secret''\<rparr>)) = None \<and>
   list_all (\<lambda>opts. username opts = None \<and> password opts = None)
     (connect_calls (fst (main_run (example_env [] [])
        (example_options\<lparr>mqttPassword := ''secret''\<rparr>))))"
proof -
  let ?options = "example_options\<lparr>mqttPassword := ''secret''\<rparr>"
  have e: "parseConfFile
     (\<lambda>path. Some (file_of_lines [''InputUdpPort 9999'', ''MqttUrl tcp://localhost:1883'',
        ''MqttTopic sensors/1'', ''MqttClientID gw'', ''MqttPassword secret'']))
     (AppOptions_defaults ''udpmqttgw'') = ([], Inr (True, ?options))"
    by code_simp
  have h: "mqttUrl ?options \<noteq> []" "mqttTopic ?options \<noteq> []" "mqttClientID ?options \<noteq> []"
    "mqttUsername ?options = []"
    by (simp_all add: example_options_def AppOptions_defaults_def)
  have p: "mqttPassword ?options \<noteq> []" by simp
  from password_without_username_ignored [OF e h, of "example_env [] []"] e h p
  show ?thesis by simp
qed

end
